theory Spec2Isabelle
  imports Main "HOL-Library.Char_ord" "HOL-Library.List_Lexorder"
begin

chapter \<open>The swarm, its router and the tool registry\<close>

text \<open>
  A shallow embedding of the parts of the workspace template that its specification makes
  claims about, and the proofs of those claims:
  \<^item> \<open>BaseAgent\<close> (\<open>src/agents/base-agent.ts\<close>) and its subclasses,
  \<^item> \<open>RouterAgent\<close> (\<open>src/agents/router-agent.ts\<close>): the parser of the delegation plan, the
    keyword fallback and the synthesis prompt,
  \<^item> \<open>MessageBus\<close> and \<open>SwarmOrchestrator\<close> (the swarm module, \<open>unnamed/part_002\<close>),
  \<^item> \<open>MCPClientManager\<close> (the client module in \<open>unnamed/part_006\<close>): the prefixed names and
    the registry of callables,
  \<^item> \<open>MemoryManager\<close> (the memory module, in \<open>src/check-auth.ts\<close>) and
    \<open>GeminiAgent.act\<close> (the agent module, \<open>unnamed/part_004\<close>).

  Everything outside the repository is a step on an abstract world \<open>'w\<close>: a call of the
  language model, a reading of the wall clock, a call of a tool server, a write to the
  disk. Such a step returns its outcome and the world after it, and an outcome is either
  what was thrown (\<open>Inl\<close>) or a value (\<open>Inr\<close>). Each step is taken to settle; a call that
  never settles is not modelled. Objects of the program are records, and a method that
  changes its object returns the changed record.
\<close>

section \<open>Strings of the host language\<close>

text \<open>
  Texts are lists of 8-bit characters and are taken to be ASCII. The string methods the
  sources call are written out: \<open>trim\<close> strips the ASCII white space (tab, line feed,
  vertical tab, form feed, carriage return, space) from both ends, \<open>toLowerCase\<close> maps
  \<open>A\<close>..\<open>Z\<close> to \<open>a\<close>..\<open>z\<close>, \<open>startsWith\<close> and \<open>includes\<close> test for a prefix and
  for a substring, \<open>split\<close> cuts a text at every occurrence of a one-character separator
  (so the empty text gives one empty piece).
\<close>

definition isSpace :: "char \<Rightarrow> bool" where
  "isSpace c = (c \<in> set [CHR 0x09, CHR 0x0A, CHR 0x0B, CHR 0x0C, CHR 0x0D, CHR '' ''])"

definition trim :: "string \<Rightarrow> string" where
  "trim s = rev (dropWhile isSpace (rev (dropWhile isSpace s)))"

definition startsWith :: "string \<Rightarrow> string \<Rightarrow> bool" where
  "startsWith s p = (take (length p) s = p)"

fun str_includes :: "string \<Rightarrow> string \<Rightarrow> bool" where
  "str_includes [] w = (w = [])"
| "str_includes (c # s) w = (startsWith (c # s) w \<or> str_includes s w)"

definition toLowerChar :: "char \<Rightarrow> char" where
  "toLowerChar c =
     (case map_of (zip ''ABCDEFGHIJKLMNOPQRSTUVWXYZ'' ''abcdefghijklmnopqrstuvwxyz'') c of
        None \<Rightarrow> c
      | Some l \<Rightarrow> l)"

definition toLowerCase :: "string \<Rightarrow> string" where
  "toLowerCase s = map toLowerChar s"

fun str_split :: "char \<Rightarrow> string \<Rightarrow> string list" where
  "str_split sep [] = [[]]"
| "str_split sep (c # s) =
     (if c = sep then [] # str_split sep s
      else (case str_split sep s of [] \<Rightarrow> [[c]] | l # ls \<Rightarrow> (c # l) # ls))"

text \<open>
  \<open>line.split(':', 2)[1]\<close>: the piece between the first and the second colon. It is
  \<open>undefined\<close> when the line has no colon, and calling \<open>trim\<close> on it then throws.
\<close>

definition splitField :: "string \<Rightarrow> string option" where
  "splitField line = (case str_split CHR '':'' line of _ # v # _ \<Rightarrow> Some v | _ \<Rightarrow> None)"

text \<open>\<open>a || b\<close> on texts: the empty text is falsy.\<close>

definition orElse :: "string \<Rightarrow> string \<Rightarrow> string" where
  "orElse a b = (if a = [] then b else a)"

section \<open>Errors\<close>

text \<open>A thrown exception is a value; its text is what \<open>String(error)\<close> renders.\<close>

datatype error = TypeError string

section \<open>Messages between agents\<close>

text \<open>The interface \<open>Message\<close> of the swarm: \<open>from\<close>, \<open>to\<close>, \<open>type\<close>, \<open>content\<close>, \<open>timestamp\<close>.\<close>

record message =
  msg_from :: string
  msg_to :: string
  msg_type :: string
  msg_content :: string
  msg_timestamp :: string

section \<open>BaseAgent\<close>

text \<open>
  The language model is outside the repository. One call of
  \<open>this.model.models.generateContent\<close> with the prompt as \<open>contents\<close> (the model name is a
  constant of the process settings) is a step on an abstract world \<open>'w\<close>: it either throws,
  which is \<open>Inl\<close> of the thrown value's text, or settles with a result object. Line 102 of
  \<open>base-agent.ts\<close> reads the result in three ways, which are the three constructors: a truthy
  \<open>result.text\<close> whose call returns a text, otherwise a truthy \<open>result.response\<close> whose
  \<open>text()\<close> returns a text, otherwise the \<open>JSON.stringify\<close> of the result. An exception thrown
  while reading the result is thrown inside the same \<open>try\<close> block and is \<open>Inl\<close> as well.
\<close>

datatype gen_result = ResultText string | ResponseText string | Stringified string

type_synonym 'w generateContent = "string \<Rightarrow> 'w \<Rightarrow> (string + gen_result) \<times> 'w"

text \<open>
  An entry of \<open>conversationHistory\<close> is a \<open>Record<string, string>\<close>: a list of keys with
  their values.
\<close>

record 'w base_agent =
  role :: string
  systemPrompt :: string
  conversationHistory :: "(string \<times> string) list list"
  model :: "'w generateContent option"

definition outputOf :: "gen_result \<Rightarrow> string" where
  "outputOf result =
     (case result of
        ResultText s \<Rightarrow> trim s
      | ResponseText s \<Rightarrow> trim s
      | Stringified s \<Rightarrow> s)"

definition contextStr :: "message list \<Rightarrow> string" where
  "contextStr context =
     ''\<newline>\<newline>Context from other agents:\<newline>'' @
     concat (map (\<lambda>msg. ''['' @ orElse (msg_from msg) ''unknown'' @ '']: '' @
                          orElse (msg_content msg) '''' @ ''\<newline>'') context)"

definition fullPrompt :: "'w base_agent \<Rightarrow> string \<Rightarrow> message list option \<Rightarrow> string" where
  "fullPrompt a tsk context =
     concat ([systemPrompt a, ''\<newline>\<newline>Task: '' @ tsk] @
             (case context of
                None \<Rightarrow> []
              | Some ctx \<Rightarrow> if length ctx > 0 then [contextStr ctx] else []))"

text \<open>
  \<open>BaseAgent.execute(task, context)\<close>: returns the text, the agent with its history as the
  call leaves it, and the world after the call.
\<close>

definition execute ::
  "'w base_agent \<Rightarrow> string \<Rightarrow> message list option \<Rightarrow> 'w \<Rightarrow> (string \<times> 'w base_agent) \<times> 'w" where
  "execute a tsk context w =
     (case model a of
        None \<Rightarrow> ((''['' @ role a @ ''] Error: Model not initialized'', a), w)
      | Some generateContent \<Rightarrow>
          (case generateContent (fullPrompt a tsk context) w of
             (Inl err, w') \<Rightarrow> ((''['' @ role a @ ''] Error executing task: '' @ err, a), w')
           | (Inr result, w') \<Rightarrow>
               (let output = outputOf result
                in ((output,
                     a\<lparr>conversationHistory := conversationHistory a @
                        [[(''role'', ''user''), (''content'', tsk)],
                         [(''role'', ''assistant''), (''content'', output)]]\<rparr>), w'))))"

section \<open>RouterAgent\<close>

record delegation =
  agent :: string
  task :: string

text \<open>\<open>Partial<Delegation>\<close>: either field may be missing.\<close>

record partial_delegation =
  agent_opt :: "string option"
  task_opt :: "string option"

text \<open>
  \<open>if (currentDelegation.agent && currentDelegation.task) delegations.push(currentDelegation)\<close>:
  a missing field and an empty text are both falsy.
\<close>

definition pushIfComplete :: "delegation list \<Rightarrow> partial_delegation \<Rightarrow> delegation list" where
  "pushIfComplete delegations current =
     (case (agent_opt current, task_opt current) of
        (Some a, Some t) \<Rightarrow>
          if a \<noteq> [] \<and> t \<noteq> [] then delegations @ [\<lparr>agent = a, task = t\<rparr>] else delegations
      | _ \<Rightarrow> delegations)"

definition truthy :: "string option \<Rightarrow> bool" where
  "truthy v = (case v of None \<Rightarrow> False | Some s \<Rightarrow> s \<noteq> [])"

definition isAgentLine :: "string \<Rightarrow> bool" where
  "isAgentLine rawLine = startsWith (trim rawLine) ''- agent:''"

definition isTaskLine :: "string \<Rightarrow> bool" where
  "isTaskLine rawLine = startsWith (trim rawLine) ''- task:''"

text \<open>The body of the loop over the lines of the planning response (lines 57 to 67).\<close>

definition parseLine ::
  "delegation list \<times> partial_delegation \<Rightarrow> string \<Rightarrow>
   error + (delegation list \<times> partial_delegation)" where
  "parseLine st rawLine =
     (case st of (delegations, current) \<Rightarrow>
        (let line = trim rawLine in
         if startsWith line ''- agent:'' then
           (case splitField line of
              None \<Rightarrow> Inl (TypeError ''Cannot read properties of undefined (reading 'trim')'')
            | Some v \<Rightarrow>
                Inr (pushIfComplete delegations current,
                     \<lparr>agent_opt = Some (trim v), task_opt = None\<rparr>))
         else if startsWith line ''- task:'' \<and> truthy (agent_opt current) then
           (case splitField line of
              None \<Rightarrow> Inl (TypeError ''Cannot read properties of undefined (reading 'trim')'')
            | Some v \<Rightarrow> Inr (delegations, current\<lparr>task_opt := Some (trim v)\<rparr>))
         else Inr (delegations, current)))"

fun parseLines ::
  "delegation list \<times> partial_delegation \<Rightarrow> string list \<Rightarrow>
   error + (delegation list \<times> partial_delegation)" where
  "parseLines st [] = Inr st"
| "parseLines st (rawLine # rest) =
     (case parseLine st rawLine of
        Inl e \<Rightarrow> Inl e
      | Inr st' \<Rightarrow> parseLines st' rest)"

text \<open>The loop from its initial state, followed by the flush of lines 69 to 71.\<close>

definition parseLineList :: "string list \<Rightarrow> error + delegation list" where
  "parseLineList lines =
     (case parseLines ([], \<lparr>agent_opt = None, task_opt = None\<rparr>) lines of
        Inl e \<Rightarrow> Inl e
      | Inr (delegations, current) \<Rightarrow> Inr (pushIfComplete delegations current))"

definition parseDelegations :: "string \<Rightarrow> error + delegation list" where
  "parseDelegations analysis = parseLineList (str_split CHR 0x0A analysis)"

definition codeKeywords :: "string list" where
  "codeKeywords = [''code'', ''implement'', ''build'', ''create'', ''write'', ''function'']"

definition reviewKeywords :: "string list" where
  "reviewKeywords = [''review'', ''check'', ''security'', ''quality'', ''analyze'']"

definition researchKeywords :: "string list" where
  "researchKeywords = [''research'', ''search'', ''find'', ''information'', ''learn'']"

text \<open>\<open>words.some((word) => taskLower.includes(word))\<close>\<close>

definition someIncluded :: "string list \<Rightarrow> string \<Rightarrow> bool" where
  "someIncluded keywords taskLower = list_ex (\<lambda>word. str_includes taskLower word) keywords"

definition simpleDelegate :: "string \<Rightarrow> delegation list" where
  "simpleDelegate userTask =
     (let taskLower = toLowerCase userTask;
          d1 = (if someIncluded codeKeywords taskLower
                then [\<lparr>agent = ''coder'', task = userTask\<rparr>] else []);
          d2 = (if someIncluded reviewKeywords taskLower
                then d1 @ [\<lparr>agent = ''reviewer'', task = userTask\<rparr>] else d1);
          d3 = (if someIncluded researchKeywords taskLower
                then d2 @ [\<lparr>agent = ''researcher'', task = userTask\<rparr>] else d2)
      in if length d3 = 0 then [\<lparr>agent = ''coder'', task = userTask\<rparr>] else d3)"

text \<open>
  \<open>RouterAgent.analyzeAndDelegate(userTask)\<close>: one call of \<open>execute\<close> without context, the
  parse of its answer, and the keyword fallback when nothing was parsed.
\<close>

definition analyzeAndDelegate ::
  "'w base_agent \<Rightarrow> string \<Rightarrow> 'w \<Rightarrow> error + (delegation list \<times> 'w base_agent \<times> 'w)" where
  "analyzeAndDelegate r userTask w =
     (case execute r userTask None w of
        ((analysis, r'), w') \<Rightarrow>
          (case parseDelegations analysis of
             Inl e \<Rightarrow> Inl e
           | Inr delegations \<Rightarrow>
               Inr (if length delegations = 0 then simpleDelegate userTask else delegations,
                    r', w')))"

text \<open>
  The client the constructor installs under test or without credentials: every call
  settles with \<open>{text: () => `[${role}] Task completed`}\<close>.
\<close>

definition dummyClient :: "string \<Rightarrow> 'w generateContent" where
  "dummyClient r = (\<lambda>contents w. (Inr (ResultText (''['' @ r @ ''] Task completed'')), w))"

text \<open>A client whose every call settles with the same text.\<close>

definition scriptedClient :: "string \<Rightarrow> 'w generateContent" where
  "scriptedClient answer = (\<lambda>contents w. (Inr (ResultText answer), w))"

text \<open>A client whose every call throws a value that renders as \<open>err\<close>.\<close>

definition failingClient :: "string \<Rightarrow> 'w generateContent" where
  "failingClient err = (\<lambda>contents w. (Inl err, w))"

text \<open>
  The constructors. \<open>client\<close> is the \<open>generateContent\<close> of the client the constructor
  ends with (the real one or the dummy one); \<open>this.model\<close> is never left \<open>null\<close>.
\<close>

definition newBaseAgent :: "string \<Rightarrow> string \<Rightarrow> 'w generateContent \<Rightarrow> 'w base_agent" where
  "newBaseAgent r prompt client =
     \<lparr>role = r, systemPrompt = prompt, conversationHistory = [], model = Some client\<rparr>"

definition routerSystemPrompt :: string where
  "routerSystemPrompt =
     ''You are the Router Agent, the coordinator of a multi-agent system.\<newline>'' @
     ''\<newline>'' @
     ''Your responsibilities:\<newline>'' @
     ''1. Analyze user tasks and determine which specialist agents to involve\<newline>'' @
     ''2. Break down complex tasks into subtasks for different specialists\<newline>'' @
     ''3. Coordinate the workflow between agents\<newline>'' @
     ''4. Synthesize final results from multiple specialists\<newline>'' @
     ''\<newline>'' @
     ''Available specialist agents:\<newline>'' @
     ''- coder: Writes and refactors code, creates files, implements features\<newline>'' @
     ''- reviewer: Reviews code quality, checks for security issues, analyzes logs\<newline>'' @
     ''- researcher: Gathers information, performs web searches, analyzes data\<newline>'' @
     ''\<newline>'' @
     ''When analyzing a task, respond with a delegation plan in this format:\<newline>'' @
     ''DELEGATION:\<newline>'' @
     ''- agent: <agent_name>\<newline>'' @
     ''- task: <specific task for that agent>\<newline>'' @
     ''\<newline>'' @
     ''You may delegate to multiple agents in sequence or parallel.''"

definition coderSystemPrompt :: string where
  "coderSystemPrompt =
     ''You are the Coder Agent, a specialist in software engineering.\<newline>'' @
     ''\<newline>'' @
     ''Your responsibilities:\<newline>'' @
     ''1. Write clean, efficient, and well-documented code\<newline>'' @
     ''2. Refactor existing code for better performance and readability\<newline>'' @
     ''3. Implement new features based on requirements\<newline>'' @
     ''4. Debug and fix issues\<newline>'' @
     ''\<newline>'' @
     ''Focus on technical accuracy and best practices. '' @
     ''When writing code, provide the complete implementation.''"

definition reviewerSystemPrompt :: string where
  "reviewerSystemPrompt =
     ''You are the Reviewer Agent, a specialist in code quality and security.\<newline>'' @
     ''\<newline>'' @
     ''Your responsibilities:\<newline>'' @
     ''1. Review code for bugs, security vulnerabilities, and performance issues\<newline>'' @
     ''2. Ensure code follows style guidelines and best practices\<newline>'' @
     ''3. Analyze logs and error messages to diagnose problems\<newline>'' @
     ''4. Suggest improvements for maintainability and scalability\<newline>'' @
     ''\<newline>'' @
     ''Be thorough and critical in your analysis. Point out potential pitfalls.''"

definition researcherSystemPrompt :: string where
  "researcherSystemPrompt =
     ''You are the Researcher Agent, a specialist in information gathering.\<newline>'' @
     ''\<newline>'' @
     ''Your responsibilities:\<newline>'' @
     ''1. Research topics to provide context for coding tasks\<newline>'' @
     ''2. Search for libraries, tools, and best practices\<newline>'' @
     ''3. Analyze data and summarize findings\<newline>'' @
     ''4. verify assumptions and requirements\<newline>'' @
     ''\<newline>'' @
     ''Provide clear, sourced information to support technical decisions.''"

definition newRouterAgent :: "'w generateContent \<Rightarrow> 'w base_agent" where
  "newRouterAgent client = newBaseAgent ''router'' routerSystemPrompt client"

definition newCoderAgent :: "'w generateContent \<Rightarrow> 'w base_agent" where
  "newCoderAgent client = newBaseAgent ''coder'' coderSystemPrompt client"

definition newReviewerAgent :: "'w generateContent \<Rightarrow> 'w base_agent" where
  "newReviewerAgent client = newBaseAgent ''reviewer'' reviewerSystemPrompt client"

definition newResearcherAgent :: "'w generateContent \<Rightarrow> 'w base_agent" where
  "newResearcherAgent client = newBaseAgent ''researcher'' researcherSystemPrompt client"

section \<open>MessageBus\<close>

text \<open>
  \<open>new Date().toISOString()\<close> reads the wall clock, which belongs to the world: a reading
  returns the text of the current instant (millisecond resolution) and the world after it.
\<close>

type_synonym 'w clock = "'w \<Rightarrow> string \<times> 'w"

record message_bus =
  messages :: "message list"

definition send ::
  "'w clock \<Rightarrow> message_bus \<Rightarrow> string \<Rightarrow> string \<Rightarrow> string \<Rightarrow> string \<Rightarrow> 'w \<Rightarrow> message_bus \<times> 'w" where
  "send now bus fromAgent toAgent messageType content w =
     (case now w of
        (ts, w') \<Rightarrow>
          (bus\<lparr>messages := messages bus @
             [\<lparr>msg_from = fromAgent, msg_to = toAgent, msg_type = messageType,
               msg_content = content, msg_timestamp = ts\<rparr>]\<rparr>, w'))"

definition getContextFor :: "message_bus \<Rightarrow> string \<Rightarrow> message list" where
  "getContextFor bus agentName =
     filter (\<lambda>msg. msg_to msg = agentName \<or> msg_from msg = agentName) (messages bus)"

definition getAllMessages :: "message_bus \<Rightarrow> message list" where
  "getAllMessages bus = messages bus"

definition clear :: "message_bus \<Rightarrow> message_bus" where
  "clear bus = bus\<lparr>messages := []\<rparr>"

text \<open>A clock that stands still: every reading falls into the same millisecond.\<close>

definition frozenClock :: "string \<Rightarrow> 'w clock" where
  "frozenClock ts = (\<lambda>w. (ts, w))"

section \<open>Synthesis of the results\<close>

definition digitChar :: "nat \<Rightarrow> char" where
  "digitChar d = ''0123456789'' ! d"

text \<open>The decimal text of a number, as a template literal renders it.\<close>

function decimal :: "nat \<Rightarrow> string" where
  "decimal n = (if n < 10 then [digitChar n] else decimal (n div 10) @ [digitChar (n mod 10)])"
  by pat_completeness auto
termination
  by (relation "measure id") auto

declare decimal.simps [simp del]

text \<open>\<open>results[i] || 'No result'\<close>: a missing result and an empty one are both falsy.\<close>

definition resultAt :: "string list \<Rightarrow> nat \<Rightarrow> string" where
  "resultAt results i =
     (if i < length results then orElse (results ! i) ''No result'' else ''No result'')"

definition synthesisPrompt :: "delegation list \<Rightarrow> string list \<Rightarrow> string" where
  "synthesisPrompt delegations results =
     ''Synthesize a final response based on the following agent outputs:\<newline>\<newline>'' @
     concat (map (\<lambda>(i, d).
                decimal (i + 1) @ ''. ['' @ agent d @ ''] '' @ task d @ ''\<newline>'' @
                ''   Result: '' @ resultAt results i @ ''\<newline>\<newline>'')
             (enumerate 0 delegations)) @
     ''Provide a concise final report summarizing what was accomplished.''"

definition synthesizeResults ::
  "'w base_agent \<Rightarrow> delegation list \<Rightarrow> string list \<Rightarrow> 'w \<Rightarrow> (string \<times> 'w base_agent) \<times> 'w" where
  "synthesizeResults r delegations results w =
     execute r (synthesisPrompt delegations results) None w"

section \<open>SwarmOrchestrator\<close>

text \<open>
  \<open>workers\<close> is an object literal with the three own keys \<open>coder\<close>, \<open>reviewer\<close> and
  \<open>researcher\<close>. \<open>this.workers[agentName]\<close> is a property read: it finds an own property, or
  else one that every object inherits from \<open>Object.prototype\<close> (a function, or for
  \<open>__proto__\<close> the prototype itself: truthy values without an \<open>execute\<close> method), or else
  it is \<open>undefined\<close>.
\<close>

record 'w swarm =
  messageBus :: message_bus
  router :: "'w base_agent"
  workers :: "string \<rightharpoonup> 'w base_agent"

datatype 'w property = Own "'w base_agent" | Inherited | Undefined

definition objectPrototypeKeys :: "string list" where
  "objectPrototypeKeys =
     [''constructor'', ''__defineGetter__'', ''__defineSetter__'', ''hasOwnProperty'',
      ''__lookupGetter__'', ''__lookupSetter__'', ''isPrototypeOf'', ''propertyIsEnumerable'',
      ''toString'', ''valueOf'', ''__proto__'', ''toLocaleString'']"

definition getWorker :: "(string \<rightharpoonup> 'w base_agent) \<Rightarrow> string \<Rightarrow> 'w property" where
  "getWorker ws agentName =
     (case ws agentName of
        Some worker \<Rightarrow> Own worker
      | None \<Rightarrow> if agentName \<in> set objectPrototypeKeys then Inherited else Undefined)"

definition newSwarmOrchestrator ::
  "'w generateContent \<Rightarrow> 'w generateContent \<Rightarrow> 'w generateContent \<Rightarrow> 'w generateContent \<Rightarrow>
   'w swarm" where
  "newSwarmOrchestrator routerClient coderClient reviewerClient researcherClient =
     \<lparr>messageBus = \<lparr>messages = []\<rparr>,
      router = newRouterAgent routerClient,
      workers = [''coder'' \<mapsto> newCoderAgent coderClient,
                 ''reviewer'' \<mapsto> newReviewerAgent reviewerClient,
                 ''researcher'' \<mapsto> newResearcherAgent researcherClient]\<rparr>"

text \<open>\<open>'${s}'\<close>\<close>

definition quoted :: "string \<Rightarrow> string" where
  "quoted s = [CHR 0x27] @ s @ [CHR 0x27]"

text \<open>
  The body of the loop over the delegations (lines 125 to 164 of the swarm module), on
  the results collected so far, the orchestrator and the world. Console output, and with
  it the parameter \<open>verbose\<close>, is not modelled. With an inherited property as worker, the guard \<open>!worker\<close> does not fire and
  the call \<open>worker.execute(agentTask, context)\<close> throws a \<open>TypeError\<close>, which nothing in
  \<open>execute\<close> catches.
\<close>

definition runDelegation ::
  "'w clock \<Rightarrow> string list \<times> 'w swarm \<times> 'w \<Rightarrow> delegation \<Rightarrow>
   error + (string list \<times> 'w swarm \<times> 'w)" where
  "runDelegation now st d =
     (case st of (results, sw, w) \<Rightarrow>
        (let agentName = agent d;
             agentTask = task d;
             (bus1, w1) = send now (messageBus sw) ''router'' agentName ''task'' agentTask w
         in case getWorker (workers sw) agentName of
              Undefined \<Rightarrow>
                Inr (results @ [''Error: Unknown agent '' @ quoted agentName],
                     sw\<lparr>messageBus := bus1\<rparr>, w1)
            | Inherited \<Rightarrow> Inl (TypeError ''worker.execute is not a function'')
            | Own worker \<Rightarrow>
                (let context = getContextFor bus1 agentName;
                     ((result, worker'), w2) = execute worker agentTask (Some context) w1;
                     (bus2, w3) = send now bus1 agentName ''router'' ''result'' result w2
                 in Inr (results @ [result],
                         sw\<lparr>messageBus := bus2,
                            workers := (workers sw)(agentName \<mapsto> worker')\<rparr>, w3))))"

fun runDelegations ::
  "'w clock \<Rightarrow> string list \<times> 'w swarm \<times> 'w \<Rightarrow> delegation list \<Rightarrow>
   error + (string list \<times> 'w swarm \<times> 'w)" where
  "runDelegations now st [] = Inr st"
| "runDelegations now st (d # rest) =
     (case runDelegation now st d of
        Inl e \<Rightarrow> Inl e
      | Inr st' \<Rightarrow> runDelegations now st' rest)"

text \<open>The synthesis step that follows the loop (line 172), on the state the loop left.\<close>

definition synthesize ::
  "delegation list \<Rightarrow> error + (string list \<times> 'w swarm \<times> 'w) \<Rightarrow>
   error + (string \<times> 'w swarm \<times> 'w)" where
  "synthesize delegations looped =
     (case looped of
        Inl e \<Rightarrow> Inl e
      | Inr (results, sw, w) \<Rightarrow>
          (case synthesizeResults (router sw) delegations results w of
             ((finalResult, r'), w') \<Rightarrow> Inr (finalResult, sw\<lparr>router := r'\<rparr>, w')))"

text \<open>
  \<open>SwarmOrchestrator.execute(userTask)\<close>: the plan, the loop over the plan from no results,
  the synthesis. An exception leaves through \<open>Inl\<close>.
\<close>

definition swarm_execute ::
  "'w clock \<Rightarrow> 'w swarm \<Rightarrow> string \<Rightarrow> 'w \<Rightarrow> error + (string \<times> 'w swarm \<times> 'w)" where
  "swarm_execute now sw userTask w =
     (case analyzeAndDelegate (router sw) userTask w of
        Inl e \<Rightarrow> Inl e
      | Inr (delegations, r', w') \<Rightarrow>
          synthesize delegations (runDelegations now ([], sw\<lparr>router := r'\<rparr>, w') delegations))"

section \<open>MCP client manager\<close>

text \<open>
  The interface \<open>MCPTool\<close>. Arguments and schemas are JSON values; they are kept as their
  JSON texts.
\<close>

record mcp_tool =
  tool_name :: string
  tool_description :: string
  serverName :: string
  inputSchema :: string
  originalName :: string

text \<open>\<open>MCPServerConfig\<close>, as the schema of the configuration gives it.\<close>

record mcp_server_config =
  cfg_name :: string
  cfg_transport :: string
  cfg_command :: "string option"
  cfg_args :: "string list"
  cfg_url :: "string option"
  cfg_env :: "(string \<times> string) list"
  cfg_enabled :: bool

text \<open>
  A part of the \<open>content\<close> array of a tool result, with its \<open>text\<close> and its \<open>data\<close> when it
  has them; and a tool result: its \<open>content\<close> when that is an array, and what \<open>String(result)\<close>
  renders.
\<close>

record content_item =
  item_text :: "string option"
  item_data :: "string option"

record call_result =
  result_content :: "content_item list option"
  result_string :: string

record listed_tool =
  listed_name :: string
  listed_description :: "string option"
  listed_inputSchema :: "string option"

text \<open>
  A session is the client object of the protocol library, outside the repository:
  \<open>listTools()\<close> and \<open>callTool({name, arguments})\<close> are steps on the world that throw
  (\<open>Inl\<close>) or settle.
\<close>

record 'w mcp_session =
  listTools :: "'w \<Rightarrow> (string + listed_tool list) \<times> 'w"
  callTool :: "string \<Rightarrow> string \<Rightarrow> 'w \<Rightarrow> (string + call_result) \<times> 'w"

text \<open>
  \<open>MCPServerConnection\<close>. The fields \<open>readStream\<close>, \<open>writeStream\<close> and \<open>clientCm\<close> are
  \<open>null\<close> throughout the sources and are left out.
\<close>

record 'w mcp_connection =
  config :: mcp_server_config
  session :: "'w mcp_session option"
  tools :: "mcp_tool list"
  connected :: bool
  conn_error :: "string option"

text \<open>
  A \<open>ToolFunction\<close>: a function from the arguments that may throw, with the \<open>name\<close> and the
  \<open>description\<close> attached to it when it has them.
\<close>

record 'w tool_function =
  fn_name :: string
  fn_description :: "string option"
  call :: "string \<Rightarrow> 'w \<Rightarrow> (string + string) \<times> 'w"

text \<open>
  A \<open>Map\<close> keeps its entries in insertion order; \<open>set\<close> replaces the value of a key that
  is present where it stands, and appends a new key at the end. \<open>get\<close> is \<open>map_of\<close>.
\<close>

fun mapSet :: "'k \<Rightarrow> 'v \<Rightarrow> ('k \<times> 'v) list \<Rightarrow> ('k \<times> 'v) list" where
  "mapSet k v [] = [(k, v)]"
| "mapSet k v ((k', v') # entries) =
     (if k' = k then (k, v) # entries else (k', v') # mapSet k v entries)"

record 'w mcp_client_manager =
  configPath :: string
  servers :: "(string \<times> 'w mcp_connection) list"
  toolPrefix :: string
  initialized :: bool

definition getPrefixedName :: "mcp_tool \<Rightarrow> string \<Rightarrow> string" where
  "getPrefixedName tool prefix =
     (if prefix \<noteq> [] then prefix @ serverName tool @ ''_'' @ originalName tool
      else serverName tool @ ''_'' @ originalName tool)"

text \<open>\<open>discoverTools\<close>, given what \<open>listTools()\<close> did.\<close>

definition discoverTools ::
  "'w mcp_connection \<Rightarrow> string + listed_tool list \<Rightarrow> 'w mcp_connection" where
  "discoverTools connection toolsResponse =
     (case session connection of
        None \<Rightarrow> connection
      | Some client \<Rightarrow>
          (case toolsResponse of
             Inl err \<Rightarrow> connection
           | Inr listed \<Rightarrow>
               connection\<lparr>tools := tools connection @
                 map (\<lambda>tool.
                        \<lparr>tool_name = listed_name tool,
                         tool_description =
                           (case listed_description tool of
                              None \<Rightarrow> ''No description provided''
                            | Some d \<Rightarrow> orElse d ''No description provided''),
                         serverName = cfg_name (config connection),
                         inputSchema =
                           (case listed_inputSchema tool of None \<Rightarrow> ''{}'' | Some s \<Rightarrow> s),
                         originalName = listed_name tool\<rparr>) listed\<rparr>))"

definition joinWith :: "string \<Rightarrow> string list \<Rightarrow> string" where
  "joinWith sep parts =
     (case parts of [] \<Rightarrow> [] | p # ps \<Rightarrow> p @ concat (map (\<lambda>q. sep @ q) ps))"

text \<open>The text of one part of a tool result, when the loop of lines 322 to 328 pushes one.\<close>

definition contentText :: "content_item \<Rightarrow> string list" where
  "contentText item =
     (if truthy (item_text item) then [the (item_text item)]
      else if truthy (item_data item)
      then [''[Binary data: '' @ decimal (length (the (item_data item))) @ '' bytes]'']
      else [])"

definition resultText :: "call_result \<Rightarrow> string" where
  "resultText result =
     (case result_content result of
        None \<Rightarrow> result_string result
      | Some items \<Rightarrow>
          (let contents = concat (map contentText items)
           in if length contents > 0 then joinWith ''\<newline>'' contents else result_string result))"

definition createToolWrapper :: "'w mcp_connection \<Rightarrow> mcp_tool \<Rightarrow> string \<Rightarrow> 'w tool_function" where
  "createToolWrapper connection tool prefix =
     \<lparr>fn_name = getPrefixedName tool prefix,
      fn_description =
        Some (''[MCP:'' @ cfg_name (config connection) @ ''] '' @ tool_description tool),
      call = (\<lambda>toolArgs w.
        case session connection of
          None \<Rightarrow>
            (Inr (''Error: MCP server '' @ quoted (cfg_name (config connection)) @
                  '' is not connected''), w)
        | Some client \<Rightarrow>
            if \<not> connected connection
            then (Inr (''Error: MCP server '' @ quoted (cfg_name (config connection)) @
                       '' is not connected''), w)
            else (case callTool client (originalName tool) toolArgs w of
                    (Inl err, w') \<Rightarrow>
                      (Inr (''Error calling MCP tool '' @ quoted (originalName tool) @ '': '' @
                            err), w')
                  | (Inr result, w') \<Rightarrow> (Inr (resultText result), w')))\<rparr>"

text \<open>\<open>getAllToolsAsCallables\<close>: the two nested loops, into a fresh \<open>Map\<close>.\<close>

definition addCallables ::
  "string \<Rightarrow> 'w mcp_connection \<Rightarrow> (string \<times> 'w tool_function) list \<Rightarrow>
   (string \<times> 'w tool_function) list" where
  "addCallables prefix connection callables =
     (if \<not> connected connection then callables
      else fold (\<lambda>tool cs. mapSet (getPrefixedName tool prefix)
                              (createToolWrapper connection tool prefix) cs)
             (tools connection) callables)"

definition getAllToolsAsCallables ::
  "'w mcp_client_manager \<Rightarrow> (string \<times> 'w tool_function) list" where
  "getAllToolsAsCallables mgr =
     fold (\<lambda>entry callables. addCallables (toolPrefix mgr) (snd entry) callables)
       (servers mgr) []"

text \<open>A session with no tools whose every call settles with an empty result.\<close>

definition idleSession :: "'w mcp_session" where
  "idleSession =
     \<lparr>listTools = (\<lambda>w. (Inr [], w)),
      callTool = (\<lambda>name toolArgs w.
        (Inr \<lparr>result_content = None, result_string = ''[object Object]''\<rparr>, w))\<rparr>"

definition exampleConnection :: "string \<Rightarrow> string list \<Rightarrow> 'w mcp_connection" where
  "exampleConnection name toolNames =
     discoverTools
       \<lparr>config = \<lparr>cfg_name = name, cfg_transport = ''stdio'', cfg_command = Some ''server'',
                  cfg_args = [], cfg_url = None, cfg_env = [], cfg_enabled = True\<rparr>,
        session = Some idleSession, tools = [], connected = True, conn_error = None\<rparr>
       (Inr (map (\<lambda>n. \<lparr>listed_name = n, listed_description = None,
                        listed_inputSchema = None\<rparr>) toolNames))"

definition exampleManager :: "(string \<times> string list) list \<Rightarrow> 'w mcp_client_manager" where
  "exampleManager provided =
     \<lparr>configPath = ''mcp_servers.json'',
      servers = fold (\<lambda>(name, toolNames) m. mapSet name (exampleConnection name toolNames) m)
                  provided [],
      toolPrefix = ''mcp_'',
      initialized = True\<rparr>"

section \<open>MemoryManager\<close>

record memory_entry =
  entry_role :: string
  entry_content :: string
  entry_metadata :: "(string \<times> string) list"

text \<open>The private array \<open>_memory\<close> is the field \<open>entries\<close>.\<close>

record memory_manager =
  memoryFile :: string
  entries :: "memory_entry list"
  summary :: string

record context_message =
  cm_role :: string
  cm_content :: string

text \<open>
  \<open>fs.writeFileSync(path, JSON.stringify(payload, null, 2), 'utf-8')\<close> is a step on the
  world, given the path and the payload (the summary and the history); it returns the text
  of what it throws, if it throws.
\<close>

type_synonym 'w file_writer =
  "string \<Rightarrow> string \<times> memory_entry list \<Rightarrow> 'w \<Rightarrow> string option \<times> 'w"

definition saveMemory :: "'w file_writer \<Rightarrow> memory_manager \<Rightarrow> 'w \<Rightarrow> string option \<times> 'w" where
  "saveMemory writeFileSync mm w = writeFileSync (memoryFile mm) (summary mm, entries mm) w"

text \<open>
  \<open>addEntry(role, content)\<close>: the entry is pushed before the file is written, so it stays
  in memory also when the write throws. The result is what was thrown, if anything, the
  manager and the world.
\<close>

definition addEntry ::
  "'w file_writer \<Rightarrow> memory_manager \<Rightarrow> string \<Rightarrow> string \<Rightarrow> 'w \<Rightarrow>
   string option \<times> memory_manager \<times> 'w" where
  "addEntry writeFileSync mm r c w =
     (let mm' = mm\<lparr>entries := entries mm @
                  [\<lparr>entry_role = r, entry_content = c, entry_metadata = []\<rparr>]\<rparr>
      in case saveMemory writeFileSync mm' w of (thrown, w') \<Rightarrow> (thrown, mm', w'))"

definition defaultSummarizer :: "memory_entry list \<Rightarrow> string \<Rightarrow> string" where
  "defaultSummarizer oldMessages previousSummary =
     trim (joinWith ''\<newline>''
       ((if previousSummary \<noteq> [] then [trim previousSummary] else []) @
        map (\<lambda>m. orElse (entry_role m) ''unknown'' @ '': '' @ orElse (entry_content m) [])
          oldMessages))"

definition asContextMessage :: "memory_entry \<Rightarrow> context_message" where
  "asContextMessage m = \<lparr>cm_role = entry_role m, cm_content = entry_content m\<rparr>"

text \<open>
  \<open>getContextWindow(systemPrompt, maxMessages)\<close> with the default summarizer, which does
  not throw and returns a text. \<open>Inl\<close> is the text of what the call throws.
\<close>

definition getContextWindow ::
  "'w file_writer \<Rightarrow> memory_manager \<Rightarrow> string \<Rightarrow> nat \<Rightarrow> 'w \<Rightarrow>
   (string + context_message list) \<times> memory_manager \<times> 'w" where
  "getContextWindow writeFileSync mm prompt maxMessages w =
     (if prompt = []
      then (Inl ''Error: systemPrompt is required to build the context window.'', mm, w)
      else if maxMessages < 1
      then (Inl ''Error: maxMessages must be at least 1.'', mm, w)
      else
        (let history = entries mm;
             systemMessage = \<lparr>cm_role = ''system'', cm_content = prompt\<rparr>
         in if length history \<le> maxMessages
            then (Inr (systemMessage # map asContextMessage history), mm, w)
            else
              (let messagesToSummarize = take (length history - maxMessages) history;
                   recentHistory = drop (length history - maxMessages) history;
                   newSummary = defaultSummarizer messagesToSummarize (summary mm);
                   previousSummary = summary mm;
                   mm' = mm\<lparr>summary := trim newSummary\<rparr>
               in case (if summary mm' \<noteq> previousSummary
                        then saveMemory writeFileSync mm' w else (None, w)) of
                    (Some e, w') \<Rightarrow> (Inl e, mm', w')
                  | (None, w') \<Rightarrow>
                      (Inr (systemMessage #
                            \<lparr>cm_role = ''system'',
                              cm_content = ''Previous Summary: '' @ summary mm'\<rparr> #
                            map asContextMessage recentHistory), mm', w'))))"

section \<open>GeminiAgent\<close>

record 'w gemini_agent =
  memory :: memory_manager
  availableTools :: "(string \<times> 'w tool_function) list"
  agent_model :: "'w generateContent option"

definition toUpperChar :: "char \<Rightarrow> char" where
  "toUpperChar c =
     (case map_of (zip ''abcdefghijklmnopqrstuvwxyz'' ''ABCDEFGHIJKLMNOPQRSTUVWXYZ'') c of
        None \<Rightarrow> c
      | Some u \<Rightarrow> u)"

definition toUpperCase :: "string \<Rightarrow> string" where
  "toUpperCase s = map toUpperChar s"

text \<open>\<open>doc.trim().replace(/\n/g, ' ')\<close>\<close>

definition onOneLine :: "string \<Rightarrow> string" where
  "onOneLine doc = map (\<lambda>c. if c = CHR 0x0A then CHR '' '' else c) (trim doc)"

definition getToolDescriptions :: "(string \<times> 'w tool_function) list \<Rightarrow> string" where
  "getToolDescriptions toolMap =
     joinWith ''\<newline>''
       (map (\<lambda>(name, fn).
               ''- '' @ name @ '': '' @
               onOneLine (case fn_description fn of
                            None \<Rightarrow> ''No description provided.''
                          | Some d \<Rightarrow> orElse d ''No description provided.''))
          toolMap)"

definition formatContextMessages :: "context_message list \<Rightarrow> string" where
  "formatContextMessages contextMessages =
     joinWith ''\<newline>''
       (map (\<lambda>msg. toUpperCase (orElse (cm_role msg) []) @ '': '' @
                    orElse (cm_content msg) []) contextMessages)"

text \<open>\<open>callGemini(prompt)\<close>: every failure is the empty text.\<close>

definition callGemini :: "'w gemini_agent \<Rightarrow> string \<Rightarrow> 'w \<Rightarrow> string \<times> 'w" where
  "callGemini ag prompt w =
     (case agent_model ag of
        None \<Rightarrow> ([], w)
      | Some generateContent \<Rightarrow>
          (case generateContent prompt w of
             (Inl err, w') \<Rightarrow> ([], w')
           | (Inr result, w') \<Rightarrow>
               ((case result of
                   ResultText s \<Rightarrow> s
                 | ResponseText s \<Rightarrow> s
                 | Stringified s \<Rightarrow> s), w')))"

text \<open>
  \<open>extractToolCall(responseText)\<close>. The JSON pattern of lines 281 to 292 rests on
  \<open>JSON.parse\<close>, which is outside the repository: \<open>jsonPattern\<close> gives the name and the
  arguments that block returns for a text, or \<open>None\<close> when the block falls through. The
  second pattern is a line that starts with \<open>action:\<close> in any case.
\<close>

fun findActionLine :: "string list \<Rightarrow> error + string option" where
  "findActionLine [] = Inr None"
| "findActionLine (line # rest) =
     (if startsWith (toLowerCase line) ''action:'' then
        (case splitField line of
           None \<Rightarrow> Inl (TypeError ''Cannot read properties of undefined (reading 'trim')'')
         | Some v \<Rightarrow> if trim v \<noteq> [] then Inr (Some (trim v)) else findActionLine rest)
      else findActionLine rest)"

definition extractToolCall ::
  "(string \<Rightarrow> (string \<times> string) option) \<Rightarrow> string \<Rightarrow> error + (string option \<times> string)" where
  "extractToolCall jsonPattern responseText =
     (let cleaned = trim responseText
      in case jsonPattern cleaned of
           Some (name, toolArgs) \<Rightarrow> Inr (Some name, toolArgs)
         | None \<Rightarrow>
             (case findActionLine (str_split CHR 0x0A cleaned) of
                Inl e \<Rightarrow> Inl e
              | Inr name \<Rightarrow> Inr (name, ''{}'')))"

text \<open>
  The dispatch of lines 395 to 406 of \<open>act\<close>: the observation for a requested tool. A
  name that \<open>availableTools\<close> does not hold gives a text; an exception of a tool that it
  holds is caught and gives a text.
\<close>

definition invokeTool ::
  "(string \<times> 'w tool_function) list \<Rightarrow> string \<Rightarrow> string \<Rightarrow> 'w \<Rightarrow> string \<times> 'w" where
  "invokeTool toolMap toolName toolArgs w =
     (case map_of toolMap toolName of
        None \<Rightarrow> (''Requested tool '' @ quoted toolName @ '' is not registered.'', w)
      | Some toolFn \<Rightarrow>
          (case call toolFn toolArgs w of
             (Inl err, w') \<Rightarrow> (''Error executing tool '' @ quoted toolName @ '': '' @ err, w')
           | (Inr observation, w') \<Rightarrow> (observation, w')))"

definition actSystemPrompt :: "string \<Rightarrow> string" where
  "actSystemPrompt toolList =
     ''You are an expert AI agent following the Think-Act-Reflect loop.\<newline>'' @
     ''You have access to the following tools:\<newline>'' @
     toolList @ ''\<newline>'' @
     ''\<newline>'' @
     ''If you need a tool, respond ONLY with a JSON object using the schema:\<newline>'' @
     ''{'' @ [CHR 0x22] @ ''action'' @ [CHR 0x22] @ '': '' @ [CHR 0x22] @ ''<tool_name>'' @
     [CHR 0x22] @ '', '' @ [CHR 0x22] @ ''args'' @ [CHR 0x22] @ '': {'' @ [CHR 0x22] @
     ''param'' @ [CHR 0x22] @ '': '' @ [CHR 0x22] @ ''value'' @ [CHR 0x22] @ ''}}\<newline>'' @
     ''If no tool is needed, reply directly with the final answer.''"

definition followUpPrompt :: "string \<Rightarrow> string \<Rightarrow> string \<Rightarrow> string" where
  "followUpPrompt updatedFormattedContext toolName observation =
     updatedFormattedContext @ ''\<newline>\<newline>'' @
     ''Tool '' @ quoted toolName @ '' observation: '' @ observation @ ''\<newline>'' @
     ''Use the observation above to craft the final answer for the user. '' @
     ''Do not request additional tool calls.''"

text \<open>Lines 425 and 426: the final response is recorded and returned.\<close>

definition recordFinal ::
  "'w file_writer \<Rightarrow> 'w gemini_agent \<Rightarrow> string \<Rightarrow> 'w \<Rightarrow>
   (string + string) \<times> 'w gemini_agent \<times> 'w" where
  "recordFinal writeFileSync ag finalResponse w =
     (case addEntry writeFileSync (memory ag) ''assistant'' finalResponse w of
        (Some e, mm, w') \<Rightarrow> (Inl e, ag\<lparr>memory := mm\<rparr>, w')
      | (None, mm, w') \<Rightarrow> (Inr finalResponse, ag\<lparr>memory := mm\<rparr>, w'))"

text \<open>Lines 408 to 422: the observation is recorded and the model is asked again.\<close>

definition observe ::
  "'w file_writer \<Rightarrow> 'w gemini_agent \<Rightarrow> string \<Rightarrow> string \<Rightarrow> string \<Rightarrow> string \<Rightarrow> 'w \<Rightarrow>
   (string + string) \<times> 'w gemini_agent \<times> 'w" where
  "observe writeFileSync ag prompt firstReply toolName observation w =
     (case addEntry writeFileSync (memory ag) ''assistant'' firstReply w of
        (Some e, mm1, w1) \<Rightarrow> (Inl e, ag\<lparr>memory := mm1\<rparr>, w1)
      | (None, mm1, w1) \<Rightarrow>
          (case addEntry writeFileSync mm1 ''tool'' (toolName @ '' output: '' @ observation) w1 of
             (Some e, mm2, w2) \<Rightarrow> (Inl e, ag\<lparr>memory := mm2\<rparr>, w2)
           | (None, mm2, w2) \<Rightarrow>
               (case getContextWindow writeFileSync mm2 prompt 10 w2 of
                  (Inl e, mm3, w3) \<Rightarrow> (Inl e, ag\<lparr>memory := mm3\<rparr>, w3)
                | (Inr updatedContext, mm3, w3) \<Rightarrow>
                    (case callGemini ag
                            (followUpPrompt (formatContextMessages updatedContext) toolName
                               observation) w3 of
                       (finalResponse, w4) \<Rightarrow>
                         recordFinal writeFileSync (ag\<lparr>memory := mm3\<rparr>) finalResponse w4))))"

text \<open>
  The \<open>try\<close> block of \<open>act\<close> (lines 383 to 427); \<open>Inl\<close> is the text of an exception thrown
  inside it.
\<close>

definition actBody ::
  "'w file_writer \<Rightarrow> (string \<Rightarrow> (string \<times> string) option) \<Rightarrow> 'w gemini_agent \<Rightarrow> string \<Rightarrow>
   string \<Rightarrow> 'w \<Rightarrow> (string + string) \<times> 'w gemini_agent \<times> 'w" where
  "actBody writeFileSync jsonPattern ag tsk prompt w =
     (case getContextWindow writeFileSync (memory ag) prompt 10 w of
        (Inl e, mm1, w1) \<Rightarrow> (Inl e, ag\<lparr>memory := mm1\<rparr>, w1)
      | (Inr contextMessages, mm1, w1) \<Rightarrow>
          (case callGemini ag
                  (formatContextMessages contextMessages @ ''\<newline>\<newline>Current Task: '' @ tsk)
                  w1 of
             (firstReply, w2) \<Rightarrow>
               (case extractToolCall jsonPattern firstReply of
                  Inl (TypeError e) \<Rightarrow> (Inl (''TypeError: '' @ e), ag\<lparr>memory := mm1\<rparr>, w2)
                | Inr (toolName, toolArgs) \<Rightarrow>
                    if truthy toolName then
                      (case invokeTool (availableTools ag) (the toolName) toolArgs w2 of
                         (observation, w3) \<Rightarrow>
                           observe writeFileSync (ag\<lparr>memory := mm1\<rparr>) prompt firstReply
                             (the toolName) observation w3)
                    else recordFinal writeFileSync (ag\<lparr>memory := mm1\<rparr>) firstReply w2)))"

text \<open>
  \<open>GeminiAgent.act(task)\<close>. The first memory write stands before the \<open>try\<close> block, so
  what it throws leaves \<open>act\<close>; everything thrown inside the block is turned into the
  returned text. \<open>think\<close> only waits and prints.
\<close>

definition act ::
  "'w file_writer \<Rightarrow> (string \<Rightarrow> (string \<times> string) option) \<Rightarrow> 'w gemini_agent \<Rightarrow> string \<Rightarrow>
   'w \<Rightarrow> (string + string) \<times> 'w gemini_agent \<times> 'w" where
  "act writeFileSync jsonPattern ag tsk w =
     (case addEntry writeFileSync (memory ag) ''user'' tsk w of
        (Some e, mm0, w0) \<Rightarrow> (Inl e, ag\<lparr>memory := mm0\<rparr>, w0)
      | (None, mm0, w0) \<Rightarrow>
          (case actBody writeFileSync jsonPattern (ag\<lparr>memory := mm0\<rparr>) tsk
                  (actSystemPrompt (getToolDescriptions (availableTools ag))) w0 of
             (Inl e, ag', w') \<Rightarrow> (Inr (''Error generating response: '' @ e), ag', w')
           | (Inr finalResponse, ag', w') \<Rightarrow> (Inr finalResponse, ag', w')))"

text \<open>A disk that takes every write, and one that refuses every write.\<close>

definition goodDisk :: "'w file_writer" where
  "goodDisk = (\<lambda>path payload w. (None, w))"

definition fullDisk :: "'w file_writer" where
  "fullDisk = (\<lambda>path payload w. (Some ''Error: ENOSPC: no space left on device, write'', w))"

text \<open>
  An agent with one tool, a fresh memory and a model that asks for a tool named
  \<open>ghost_tool\<close> at every call; and a JSON pattern that matches nothing.
\<close>

definition exampleAgent :: "'w gemini_agent" where
  "exampleAgent =
     \<lparr>memory = \<lparr>memoryFile = ''agent_memory.json'', entries = [], summary = []\<rparr>,
      availableTools =
        [(''webSearch'',
          \<lparr>fn_name = ''webSearch'',
            fn_description = Some ''Performs a web search for the given query. Args: query (string)'',
            call = (\<lambda>toolArgs w. (Inr ''[Mock] Search results'', w))\<rparr>)],
      agent_model = Some (scriptedClient ''Action: ghost_tool'')\<rparr>"

definition noJson :: "string \<Rightarrow> (string \<times> string) option" where
  "noJson = (\<lambda>cleaned. None)"

section \<open>Example swarms\<close>

text \<open>
  A client that answers from a queue kept in the world: each call takes the next answer,
  and throws when none is left.
\<close>

definition queuedClient :: "string list generateContent" where
  "queuedClient =
     (\<lambda>contents w. case w of
        [] \<Rightarrow> (Inl ''Error: no answer left'', w)
      | answer # rest \<Rightarrow> (Inr (ResultText answer), rest))"

text \<open>A client that settles with its own prompt, not as a text but as a plain result.\<close>

definition echoClient :: "'w generateContent" where
  "echoClient = (\<lambda>contents w. (Inr (Stringified contents), w))"

text \<open>
  A swarm whose router answers from the queue, whose coder fails at every call, and whose
  other workers are the dummy ones; and the plan its router is given to answer.
\<close>

definition demoSwarm :: "string list swarm" where
  "demoSwarm =
     newSwarmOrchestrator queuedClient
       (failingClient ''Error: boom'') (dummyClient ''reviewer'') (dummyClient ''researcher'')"

definition demoPlan :: string where
  "demoPlan = ''- agent: coder\<newline>- task: write X\<newline>- agent: reviewer\<newline>- task: review X''"

text \<open>A swarm whose coder echoes its prompt, with one earlier message on the bus.\<close>

definition echoSwarm :: "unit swarm" where
  "echoSwarm =
     (newSwarmOrchestrator (dummyClient ''router'') echoClient (dummyClient ''reviewer'')
        (dummyClient ''researcher''))
     \<lparr>messageBus := \<lparr>messages =
        [\<lparr>msg_from = ''router'', msg_to = ''reviewer'', msg_type = ''task'',
          msg_content = ''earlier'', msg_timestamp = ''2026-01-01T00:00:00.000Z''\<rparr>]\<rparr>\<rparr>"

section \<open>Facts about the strings\<close>

lemma str_split_not_Nil: "str_split sep s \<noteq> []"
  by (induction s) (auto split: list.splits)

lemma str_split_two_pieces:
  "sep \<in> set s \<Longrightarrow> \<exists>a b rest. str_split sep s = a # b # rest"
proof (induction s)
  case Nil
  then show ?case by simp
next
  case (Cons c s)
  show ?case
  proof (cases "c = sep")
    case True
    obtain l ls where "str_split sep s = l # ls"
      using str_split_not_Nil [of sep s] by (cases "str_split sep s") auto
    with True show ?thesis by simp
  next
    case False
    with Cons.prems have "sep \<in> set s" by simp
    then obtain a b rest where "str_split sep s = a # b # rest"
      using Cons.IH by blast
    with False show ?thesis by simp
  qed
qed

lemma startsWith_set: "startsWith s p \<Longrightarrow> set p \<subseteq> set s"
  unfolding startsWith_def by (metis set_take_subset)

lemma splitField_agent: "startsWith line ''- agent:'' \<Longrightarrow> \<exists>v. splitField line = Some v"
proof -
  assume "startsWith line ''- agent:''"
  then have "set ''- agent:'' \<subseteq> set line" by (rule startsWith_set)
  then have "CHR '':'' \<in> set line" by simp
  then obtain a b rest where "str_split CHR '':'' line = a # b # rest"
    using str_split_two_pieces by blast
  then show ?thesis by (simp add: splitField_def)
qed

lemma splitField_task: "startsWith line ''- task:'' \<Longrightarrow> \<exists>v. splitField line = Some v"
proof -
  assume "startsWith line ''- task:''"
  then have "set ''- task:'' \<subseteq> set line" by (rule startsWith_set)
  then have "CHR '':'' \<in> set line" by simp
  then obtain a b rest where "str_split CHR '':'' line = a # b # rest"
    using str_split_two_pieces by blast
  then show ?thesis by (simp add: splitField_def)
qed

section \<open>Facts about the delegation parser\<close>

lemma parseLine_returns: "\<exists>st'. parseLine st rawLine = Inr st'"
proof (cases st)
  case (Pair delegations current)
  show ?thesis
  proof (cases "startsWith (trim rawLine) ''- agent:''")
    case True
    then obtain v where "splitField (trim rawLine) = Some v"
      using splitField_agent by blast
    with True Pair show ?thesis by (simp add: parseLine_def)
  next
    case notAgent: False
    show ?thesis
    proof (cases "startsWith (trim rawLine) ''- task:'' \<and> truthy (agent_opt current)")
      case True
      then obtain v where "splitField (trim rawLine) = Some v"
        using splitField_task by blast
      with True notAgent Pair show ?thesis by (simp add: parseLine_def)
    next
      case False
      with notAgent Pair show ?thesis by (auto simp add: parseLine_def)
    qed
  qed
qed

lemma parseLines_returns: "\<exists>st'. parseLines st lines = Inr st'"
proof (induction lines arbitrary: st)
  case Nil
  show ?case by simp
next
  case (Cons l ls)
  obtain st1 where "parseLine st l = Inr st1"
    using parseLine_returns by blast
  with Cons.IH [of st1] show ?case by simp
qed

lemma parseLineList_returns: "\<exists>ds. parseLineList lines = Inr ds"
proof -
  obtain st' where "parseLines ([], \<lparr>agent_opt = None, task_opt = None\<rparr>) lines = Inr st'"
    using parseLines_returns by blast
  then show ?thesis by (cases st') (simp add: parseLineList_def)
qed

lemma parseDelegations_returns: "\<exists>ds. parseDelegations analysis = Inr ds"
  unfolding parseDelegations_def by (rule parseLineList_returns)

lemma pushIfComplete_append:
  "pushIfComplete (p @ ds) cur = p @ pushIfComplete ds cur"
  by (simp add: pushIfComplete_def split: option.splits)

lemma pushIfComplete_no_task:
  "task_opt cur = None \<Longrightarrow> pushIfComplete ds cur = ds"
  by (simp add: pushIfComplete_def split: option.splits)

lemma parseLine_prefix:
  "parseLine (ds, cur) l = Inr (ds', cur') \<Longrightarrow> parseLine (p @ ds, cur) l = Inr (p @ ds', cur')"
  by (auto simp add: parseLine_def Let_def pushIfComplete_append split: if_splits option.splits)

lemma parseLines_prefix:
  "parseLines (ds, cur) ls = Inr (ds', cur') \<Longrightarrow>
   parseLines (p @ ds, cur) ls = Inr (p @ ds', cur')"
proof (induction ls arbitrary: ds cur)
  case Nil
  then show ?case by simp
next
  case (Cons l ls)
  obtain d1 c1 where step: "parseLine (ds, cur) l = Inr (d1, c1)"
    using parseLine_returns [of "(ds, cur)" l] by auto
  with Cons.prems have "parseLines (d1, c1) ls = Inr (ds', cur')" by simp
  then have "parseLines (p @ d1, c1) ls = Inr (p @ ds', cur')" by (rule Cons.IH)
  with parseLine_prefix [OF step, of p] show ?case by simp
qed

lemma parseLines_append:
  "parseLines st (xs @ ys) =
     (case parseLines st xs of Inl e \<Rightarrow> Inl e | Inr st' \<Rightarrow> parseLines st' ys)"
  by (induction xs arbitrary: st) (auto split: sum.splits)

lemma parseLine_other:
  "\<not> isAgentLine l \<Longrightarrow> \<not> isTaskLine l \<Longrightarrow> parseLine st l = Inr st"
  by (cases st) (simp add: parseLine_def isAgentLine_def isTaskLine_def)

lemma parseLines_other:
  "\<forall>l\<in>set mid. \<not> isAgentLine l \<and> \<not> isTaskLine l \<Longrightarrow> parseLines st mid = Inr st"
  by (induction mid arbitrary: st) (simp_all add: parseLine_other)

lemma parseLine_agent:
  "isAgentLine a \<Longrightarrow>
   \<exists>v. parseLine (ds, cur) a = Inr (pushIfComplete ds cur, \<lparr>agent_opt = Some v, task_opt = None\<rparr>)"
proof -
  assume "isAgentLine a"
  then have sw: "startsWith (trim a) ''- agent:''" by (simp add: isAgentLine_def)
  then obtain v where "splitField (trim a) = Some v" using splitField_agent by blast
  with sw show ?thesis by (simp add: parseLine_def)
qed

lemma orphan_dropped:
  assumes a: "isAgentLine a"
    and mid: "\<forall>l\<in>set mid. \<not> isAgentLine l \<and> \<not> isTaskLine l"
    and rest: "rest = [] \<or> isAgentLine (hd rest)"
  shows "\<exists>ds1 ds2. parseLineList pre = Inr ds1 \<and> parseLineList rest = Inr ds2 \<and>
           parseLineList (pre @ a # mid @ rest) = Inr (ds1 @ ds2)"
proof -
  let ?init = "([], \<lparr>agent_opt = None, task_opt = None\<rparr>) :: delegation list \<times> partial_delegation"
  obtain d1 c1 where pre: "parseLines ?init pre = Inr (d1, c1)"
    using parseLines_returns [of ?init pre] by auto
  define ds1 where "ds1 = pushIfComplete d1 c1"
  have l1: "parseLineList pre = Inr ds1"
    by (simp add: parseLineList_def pre ds1_def)
  obtain v where stepa: "parseLine (d1, c1) a = Inr (ds1, \<lparr>agent_opt = Some v, task_opt = None\<rparr>)"
    using parseLine_agent [OF a, of d1 c1] by (auto simp add: ds1_def)
  let ?orphan = "\<lparr>agent_opt = Some v, task_opt = None\<rparr>"
  have upto: "parseLines ?init (pre @ a # mid @ rest) = parseLines (ds1, ?orphan) rest"
    by (simp add: parseLines_append pre stepa parseLines_other [OF mid])
  show ?thesis
  proof (cases rest)
    case Nil
    have "parseLineList [] = Inr []"
      by (simp add: parseLineList_def pushIfComplete_def)
    moreover have "parseLineList (pre @ a # mid @ rest) = Inr (ds1 @ [])"
      using upto Nil by (simp add: parseLineList_def pushIfComplete_no_task)
    ultimately show ?thesis using l1 Nil by blast
  next
    case (Cons a2 rest')
    with rest have a2: "isAgentLine a2" by simp
    obtain v2 where s1: "parseLine (ds1, ?orphan) a2 = Inr (pushIfComplete ds1 ?orphan, \<lparr>agent_opt = Some v2, task_opt = None\<rparr>)"
      using parseLine_agent [OF a2, of ds1 ?orphan] by auto
    obtain v3 where s2: "parseLine ?init a2 = Inr (pushIfComplete [] \<lparr>agent_opt = None, task_opt = None\<rparr>, \<lparr>agent_opt = Some v3, task_opt = None\<rparr>)"
      using parseLine_agent [OF a2, of "[]" "\<lparr>agent_opt = None, task_opt = None\<rparr>"] by auto
    have "parseLine ([] @ [], \<lparr>agent_opt = None, task_opt = None\<rparr>) a2 = Inr ([] @ pushIfComplete [] \<lparr>agent_opt = None, task_opt = None\<rparr>, \<lparr>agent_opt = Some v3, task_opt = None\<rparr>)"
      using s2 by simp
    have s1': "parseLine (ds1, ?orphan) a2 = Inr (ds1, \<lparr>agent_opt = Some v2, task_opt = None\<rparr>)"
      using s1 by (simp add: pushIfComplete_no_task)
    have s2': "parseLine ?init a2 = Inr ([], \<lparr>agent_opt = Some v3, task_opt = None\<rparr>)"
      using s2 by (simp add: pushIfComplete_no_task)
    have "parseLine ([] @ ds1, ?orphan) a2 = parseLine (ds1, ?orphan) a2" by simp
    have veq: "v2 = v3"
      using s1' s2' a2 by (auto simp add: parseLine_def isAgentLine_def split: option.splits)
    obtain d2 c2 where r2: "parseLines ([], \<lparr>agent_opt = Some v3, task_opt = None\<rparr>) rest' = Inr (d2, c2)"
      using parseLines_returns [of "([], \<lparr>agent_opt = Some v3, task_opt = None\<rparr>)" rest'] by auto
    have r1: "parseLines (ds1 @ [], \<lparr>agent_opt = Some v3, task_opt = None\<rparr>) rest' = Inr (ds1 @ d2, c2)"
      using r2 by (rule parseLines_prefix)
    have l2: "parseLineList rest = Inr (pushIfComplete d2 c2)"
      using Cons s2' r2 by (simp add: parseLineList_def)
    have "parseLineList (pre @ a # mid @ rest) = Inr (ds1 @ pushIfComplete d2 c2)"
      using upto Cons s1' veq r1 by (simp add: parseLineList_def pushIfComplete_append)
    with l1 l2 show ?thesis by blast
  qed
qed

section \<open>Facts about the loop over the delegations\<close>

lemma runDelegations_append:
  "runDelegations now st (xs @ ys) =
     (case runDelegations now st xs of Inl e \<Rightarrow> Inl e | Inr st' \<Rightarrow> runDelegations now st' ys)"
  by (induction xs arbitrary: st) (auto split: sum.splits)

lemma runDelegation_appends_one:
  "runDelegation now (rs, sw, w) d = Inr (rs', sw', w') \<Longrightarrow> \<exists>r. rs' = rs @ [r]"
  by (auto simp add: runDelegation_def Let_def split: prod.splits property.splits)

lemma runDelegations_results:
  "runDelegations now (rs, sw, w) ds = Inr (rs', sw', w') \<Longrightarrow>
   \<exists>new. rs' = rs @ new \<and> length new = length ds"
proof (induction ds arbitrary: rs sw w)
  case Nil
  then show ?case by simp
next
  case (Cons d ds)
  from Cons.prems obtain rs1 sw1 w1 where
    step: "runDelegation now (rs, sw, w) d = Inr (rs1, sw1, w1)" and
    rest: "runDelegations now (rs1, sw1, w1) ds = Inr (rs', sw', w')"
    by (auto split: sum.splits)
  from runDelegation_appends_one [OF step] obtain r where r: "rs1 = rs @ [r]" by blast
  from Cons.IH [OF rest] obtain new where "rs' = rs1 @ new" "length new = length ds" by blast
  with r have "rs' = rs @ (r # new) \<and> length (r # new) = length (d # ds)" by simp
  then show ?case by blast
qed

lemma swarm_execute_continues:
  assumes plan: "analyzeAndDelegate (router sw) userTask w = Inr (pre @ d # post, r1, wA)"
    and reached: "runDelegations now ([], sw\<lparr>router := r1\<rparr>, wA) pre = Inr (rs1, sw1, w1)"
    and step: "runDelegation now (rs1, sw1, w1) d = Inr st2"
  shows "swarm_execute now sw userTask w =
           synthesize (pre @ d # post) (runDelegations now st2 post)"
  using plan reached step by (simp add: swarm_execute_def runDelegations_append)

lemma result_position:
  assumes reached: "runDelegations now ([], sw0, wA) pre = Inr (rs1, sw1, w1)"
    and rest: "runDelegations now (rs1 @ [r], sw2, w2) post = Inr (results, sw3, w3)"
  shows "length pre < length results \<and> results ! length pre = r"
proof -
  from runDelegations_results [OF reached] have len: "length rs1 = length pre" by auto
  from runDelegations_results [OF rest] obtain new where "results = (rs1 @ [r]) @ new" by blast
  with len show ?thesis by (simp add: nth_append)
qed

lemma execute_throwing:
  "model worker = Some g \<Longrightarrow> g (fullPrompt worker tsk context) w = (Inl cause, w') \<Longrightarrow>
   execute worker tsk context w =
     ((''['' @ role worker @ ''] Error executing task: '' @ cause, worker), w')"
  by (simp add: execute_def)

section \<open>Facts about the registry of callables\<close>

lemma discovered_tools_carry_the_server_name:
  "t \<in> set (tools (discoverTools connection toolsResponse)) \<Longrightarrow>
   t \<in> set (tools connection) \<or>
   (serverName t = cfg_name (config connection) \<and> originalName t = tool_name t)"
  by (auto simp add: discoverTools_def split: option.splits sum.splits)

lemma mapSet_map_fst:
  "map fst (mapSet k v m) = (if k \<in> fst ` set m then map fst m else map fst m @ [k])"
  by (induction m) force+

lemma mapSet_keys: "fst ` set (mapSet k v m) = insert k (fst ` set m)"
proof -
  have "set (map fst (mapSet k v m)) = insert k (set (map fst m))"
    unfolding mapSet_map_fst by auto
  then show ?thesis by simp
qed

lemma mapSet_distinct: "distinct (map fst m) \<Longrightarrow> distinct (map fst (mapSet k v m))"
  unfolding mapSet_map_fst by auto

lemma fold_mapSet_keys:
  "fst ` set (fold (\<lambda>x cs. mapSet (f x) (g x) cs) xs m) = f ` set xs \<union> fst ` set m"
  by (induction xs arbitrary: m) (auto simp add: mapSet_keys)

lemma fold_mapSet_distinct:
  "distinct (map fst m) \<Longrightarrow> distinct (map fst (fold (\<lambda>x cs. mapSet (f x) (g x) cs) xs m))"
  by (induction xs arbitrary: m) (auto simp add: mapSet_distinct)

lemma addCallables_keys:
  "fst ` set (addCallables prefix c m) =
     (if connected c then (\<lambda>t. getPrefixedName t prefix) ` set (tools c) else {}) \<union> fst ` set m"
  by (simp add: addCallables_def fold_mapSet_keys)

lemma addCallables_distinct:
  "distinct (map fst m) \<Longrightarrow> distinct (map fst (addCallables prefix c m))"
  by (simp add: addCallables_def fold_mapSet_distinct)

lemma fold_addCallables_keys:
  "fst ` set (fold (\<lambda>entry callables. addCallables prefix (snd entry) callables) es m) =
     (\<Union>e \<in> set es. if connected (snd e)
                      then (\<lambda>t. getPrefixedName t prefix) ` set (tools (snd e)) else {})
     \<union> fst ` set m"
  by (induction es arbitrary: m) (auto simp add: addCallables_keys split: if_splits)

lemma fold_addCallables_distinct:
  "distinct (map fst m) \<Longrightarrow>
   distinct (map fst (fold (\<lambda>entry callables. addCallables prefix (snd entry) callables) es m))"
  by (induction es arbitrary: m) (auto simp add: addCallables_distinct)

lemma callable_key:
  assumes "(n, c) \<in> set (servers mgr)" and "connected c" and "t \<in> set (tools c)"
  shows "getPrefixedName t (toolPrefix mgr) \<in> fst ` set (getAllToolsAsCallables mgr)"
  unfolding getAllToolsAsCallables_def fold_addCallables_keys
  using assms by force

lemma callables_distinct: "distinct (map fst (getAllToolsAsCallables mgr))"
  unfolding getAllToolsAsCallables_def by (rule fold_addCallables_distinct) simp

lemma before_separator:
  "c \<notin> set s \<Longrightarrow> takeWhile (\<lambda>x. x \<noteq> c) (s @ c # r) = s"
  by (induction s) auto

lemma underscore_free_names_split:
  assumes "CHR ''_'' \<notin> set s1" and "CHR ''_'' \<notin> set s2"
    and "s1 @ ''_'' @ o1 = s2 @ ''_'' @ o2"
  shows "s1 = s2 \<and> o1 = o2"
proof -
  have "takeWhile (\<lambda>x. x \<noteq> CHR ''_'') (s1 @ CHR ''_'' # o1) = s1"
    using assms(1) by (rule before_separator)
  moreover have "takeWhile (\<lambda>x. x \<noteq> CHR ''_'') (s2 @ CHR ''_'' # o2) = s2"
    using assms(2) by (rule before_separator)
  ultimately have "s1 = s2" using assms(3) by simp
  with assms(3) show ?thesis by simp
qed

lemma getPrefixedName_eq:
  "getPrefixedName t prefix = prefix @ serverName t @ ''_'' @ originalName t"
  by (simp add: getPrefixedName_def)

lemma prefixed_names_differ:
  assumes differ: "(serverName t1, originalName t1) \<noteq> (serverName t2, originalName t2)"
    and names: "serverName t1 = serverName t2 \<or>
                (CHR ''_'' \<notin> set (serverName t1) \<and> CHR ''_'' \<notin> set (serverName t2))"
  shows "getPrefixedName t1 prefix \<noteq> getPrefixedName t2 prefix"
proof
  assume "getPrefixedName t1 prefix = getPrefixedName t2 prefix"
  then have eq: "serverName t1 @ ''_'' @ originalName t1 = serverName t2 @ ''_'' @ originalName t2"
    by (simp add: getPrefixedName_eq)
  from names show False
  proof
    assume "serverName t1 = serverName t2"
    with eq differ show False by simp
  next
    assume "CHR ''_'' \<notin> set (serverName t1) \<and> CHR ''_'' \<notin> set (serverName t2)"
    with eq have "serverName t1 = serverName t2 \<and> originalName t1 = originalName t2"
      using underscore_free_names_split by blast
    with differ show False by simp
  qed
qed

section \<open>Facts about the agent\<close>

lemma act_raises_only_first_write:
  "fst (act writeFileSync jsonPattern ag tsk w) = Inl e \<Longrightarrow>
   fst (addEntry writeFileSync (memory ag) ''user'' tsk w) = Some e"
  by (auto simp add: act_def split: prod.splits option.splits sum.splits)

lemma tool_wrapper_never_throws:
  "\<exists>text w'. call (createToolWrapper connection tool prefix) toolArgs w = (Inr text, w')"
  by (auto simp add: createToolWrapper_def split: option.splits prod.splits sum.splits)

lemma example_run:
  "act goodDisk noJson exampleAgent ''look it up'' () =
     (Inr ''Action: ghost_tool'',
      exampleAgent\<lparr>memory := (memory exampleAgent)\<lparr>entries :=
        [\<lparr>entry_role = ''user'', entry_content = ''look it up'', entry_metadata = []\<rparr>,
         \<lparr>entry_role = ''assistant'', entry_content = ''Action: ghost_tool'', entry_metadata = []\<rparr>,
         \<lparr>entry_role = ''tool'',
           entry_content = ''ghost_tool output: Requested tool 'ghost_tool' is not registered.'',
           entry_metadata = []\<rparr>,
         \<lparr>entry_role = ''assistant'', entry_content = ''Action: ghost_tool'', entry_metadata = []\<rparr>]\<rparr>\<rparr>,
      ())"
  by (simp add: act_def actBody_def observe_def recordFinal_def addEntry_def saveMemory_def
      goodDisk_def noJson_def exampleAgent_def getContextWindow_def actSystemPrompt_def
      callGemini_def scriptedClient_def extractToolCall_def trim_def isSpace_def
      startsWith_def toLowerCase_def toLowerChar_def splitField_def truthy_def invokeTool_def
      quoted_def Let_def)

section \<open>The example swarm at work\<close>

lemma demo_plan:
  "analyzeAndDelegate (router demoSwarm) ''build it'' [demoPlan, ''All done.''] =
     Inr ([\<lparr>agent = ''coder'', task = ''write X''\<rparr>, \<lparr>agent = ''reviewer'', task = ''review X''\<rparr>],
          snd (fst (execute (router demoSwarm) ''build it'' None [demoPlan, ''All done.''])),
          [''All done.''])"
  by (simp add: demoSwarm_def demoPlan_def analyzeAndDelegate_def execute_def
      newSwarmOrchestrator_def
      newRouterAgent_def newBaseAgent_def queuedClient_def outputOf_def Let_def
      parseDelegations_def parseLineList_def parseLine_def startsWith_def trim_def isSpace_def
      splitField_def pushIfComplete_def truthy_def)

lemma demo_run:
  "swarm_execute (frozenClock ''2026-01-01T00:00:00.000Z'') demoSwarm ''build it''
     [demoPlan, ''All done.''] =
   Inr (''All done.'',
        fst (snd (projr (swarm_execute (frozenClock ''2026-01-01T00:00:00.000Z'') demoSwarm
          ''build it'' [demoPlan, ''All done.'']))), [])"
  by (simp add: demoSwarm_def demoPlan_def swarm_execute_def analyzeAndDelegate_def execute_def
      newSwarmOrchestrator_def newRouterAgent_def newCoderAgent_def newReviewerAgent_def
      newBaseAgent_def queuedClient_def failingClient_def dummyClient_def outputOf_def Let_def
      parseDelegations_def parseLineList_def parseLine_def startsWith_def trim_def isSpace_def
      splitField_def pushIfComplete_def truthy_def runDelegation_def send_def frozenClock_def
      getWorker_def getContextFor_def synthesize_def synthesizeResults_def)

section \<open>The dummy router\<close>

lemma dummy_router_answer:
  "execute (newRouterAgent (dummyClient ''router'')) ''hello'' None () =
     ((''[router] Task completed'',
       (newRouterAgent (dummyClient ''router''))
         \<lparr>conversationHistory :=
            [[(''role'', ''user''), (''content'', ''hello'')],
             [(''role'', ''assistant''), (''content'', ''[router] Task completed'')]]\<rparr>), ())"
  by (simp add: execute_def newRouterAgent_def newBaseAgent_def dummyClient_def outputOf_def
      trim_def isSpace_def Let_def)

lemma dummy_answer_parses_to_nothing:
  "parseDelegations ''[router] Task completed'' = Inr []"
  by (simp add: parseDelegations_def parseLineList_def parseLine_def startsWith_def trim_def
      isSpace_def pushIfComplete_def)

lemma hello_matches_nothing:
  "\<not> someIncluded codeKeywords (toLowerCase ''hello'') \<and>
   \<not> someIncluded reviewKeywords (toLowerCase ''hello'') \<and>
   \<not> someIncluded researchKeywords (toLowerCase ''hello'')"
  by (simp add: someIncluded_def codeKeywords_def reviewKeywords_def researchKeywords_def
      toLowerCase_def toLowerChar_def startsWith_def)

section \<open>Claims about the router\<close>

text \<open>
  C1. For every task text and every router (whatever its model answers or throws),
  \<open>analyzeAndDelegate\<close> returns, and the delegations it returns are not empty. When the
  parse of the planning response gives no delegation the result is that of the keyword
  fallback \<open>simpleDelegate\<close>, and when none of the three keyword sets matches the lowered
  task text the fallback is the single delegation to \<open>coder\<close> with the original task text.
\<close>

theorem analyzeAndDelegate_nonempty:
  "\<exists>ds r' w'. analyzeAndDelegate r userTask w = Inr (ds, r', w') \<and> ds \<noteq> [] \<and>
     (parseDelegations (fst (fst (execute r userTask None w))) = Inr [] \<longrightarrow>
        ds = simpleDelegate userTask) \<and>
     (\<not> someIncluded codeKeywords (toLowerCase userTask) \<and>
      \<not> someIncluded reviewKeywords (toLowerCase userTask) \<and>
      \<not> someIncluded researchKeywords (toLowerCase userTask) \<longrightarrow>
        simpleDelegate userTask = [\<lparr>agent = ''coder'', task = userTask\<rparr>])"
proof -
  obtain analysis r' w' where ex: "execute r userTask None w = ((analysis, r'), w')"
    by (metis surj_pair)
  obtain parsed where parsed: "parseDelegations analysis = Inr parsed"
    using parseDelegations_returns by blast
  have fallback: "simpleDelegate userTask \<noteq> []"
    by (simp add: simpleDelegate_def Let_def)
  have res: "analyzeAndDelegate r userTask w =
      Inr (if length parsed = 0 then simpleDelegate userTask else parsed, r', w')"
    by (simp add: analyzeAndDelegate_def ex parsed)
  have nonempty: "(if length parsed = 0 then simpleDelegate userTask else parsed) \<noteq> []"
    using fallback by simp
  have whenEmpty: "parseDelegations (fst (fst (execute r userTask None w))) = Inr [] \<longrightarrow>
      (if length parsed = 0 then simpleDelegate userTask else parsed) = simpleDelegate userTask"
    using parsed by (simp add: ex)
  have default: "\<not> someIncluded codeKeywords (toLowerCase userTask) \<and>
      \<not> someIncluded reviewKeywords (toLowerCase userTask) \<and>
      \<not> someIncluded researchKeywords (toLowerCase userTask) \<longrightarrow>
        simpleDelegate userTask = [\<lparr>agent = ''coder'', task = userTask\<rparr>]"
    by (simp add: simpleDelegate_def Let_def)
  from res nonempty whenEmpty default show ?thesis by blast
qed

theorem analyzeAndDelegate_nonempty_witness:
  "parseDelegations
     (fst (fst (execute (newRouterAgent (dummyClient ''router'')) ''hello'' None ()))) = Inr [] \<and>
   \<not> someIncluded codeKeywords (toLowerCase ''hello'') \<and>
   \<not> someIncluded reviewKeywords (toLowerCase ''hello'') \<and>
   \<not> someIncluded researchKeywords (toLowerCase ''hello'') \<and>
   (\<exists>r' w'. analyzeAndDelegate (newRouterAgent (dummyClient ''router'')) ''hello'' () =
      Inr ([\<lparr>agent = ''coder'', task = ''hello''\<rparr>], r', w'))"
proof -
  have p: "parseDelegations
     (fst (fst (execute (newRouterAgent (dummyClient ''router'')) ''hello'' None ()))) = Inr []"
    by (simp add: dummy_router_answer dummy_answer_parses_to_nothing)
  from analyzeAndDelegate_nonempty [of "newRouterAgent (dummyClient ''router'')" "''hello''" "()"]
  obtain ds r' w' where
    "analyzeAndDelegate (newRouterAgent (dummyClient ''router'')) ''hello'' () = Inr (ds, r', w')"
    "ds = simpleDelegate ''hello''"
    "simpleDelegate ''hello'' = [\<lparr>agent = ''coder'', task = ''hello''\<rparr>]"
    using p hello_matches_nothing by blast
  then show ?thesis using p hello_matches_nothing by auto
qed

text \<open>
  C2. The planning response of the example parses to the two delegations, in order. And
  for every planning response: an \<open>- agent:\<close> line \<open>a\<close> that is followed, up to the next
  \<open>- agent:\<close> line or the end of the input, only by lines \<open>mid\<close> that are neither agent
  nor task lines, contributes nothing: the output is what the lines before \<open>a\<close> give,
  followed by what the lines from the next agent line on give.
\<close>

theorem parseDelegations_plan_and_orphans:
  "parseDelegations
     ''- agent: coder\<newline>- task: write X\<newline>- agent: reviewer\<newline>- task: review X'' =
     Inr [\<lparr>agent = ''coder'', task = ''write X''\<rparr>,
          \<lparr>agent = ''reviewer'', task = ''review X''\<rparr>] \<and>
   (\<forall>analysis pre a mid rest.
      str_split CHR 0x0A analysis = pre @ a # mid @ rest \<and>
      isAgentLine a \<and>
      (\<forall>l\<in>set mid. \<not> isAgentLine l \<and> \<not> isTaskLine l) \<and>
      (rest = [] \<or> isAgentLine (hd rest)) \<longrightarrow>
      (\<exists>ds1 ds2. parseLineList pre = Inr ds1 \<and> parseLineList rest = Inr ds2 \<and>
         parseDelegations analysis = Inr (ds1 @ ds2)))"
proof (intro conjI allI impI)
  show "parseDelegations
     ''- agent: coder\<newline>- task: write X\<newline>- agent: reviewer\<newline>- task: review X'' =
     Inr [\<lparr>agent = ''coder'', task = ''write X''\<rparr>,
          \<lparr>agent = ''reviewer'', task = ''review X''\<rparr>]"
    by (simp add: parseDelegations_def parseLineList_def parseLine_def startsWith_def trim_def
        isSpace_def splitField_def pushIfComplete_def truthy_def)
next
  fix analysis pre a mid rest
  assume h: "str_split CHR 0x0A analysis = pre @ a # mid @ rest \<and>
      isAgentLine a \<and>
      (\<forall>l\<in>set mid. \<not> isAgentLine l \<and> \<not> isTaskLine l) \<and>
      (rest = [] \<or> isAgentLine (hd rest))"
  then have "\<exists>ds1 ds2. parseLineList pre = Inr ds1 \<and> parseLineList rest = Inr ds2 \<and>
      parseLineList (pre @ a # mid @ rest) = Inr (ds1 @ ds2)"
    using orphan_dropped [of a mid rest pre] by blast
  with h show "\<exists>ds1 ds2. parseLineList pre = Inr ds1 \<and> parseLineList rest = Inr ds2 \<and>
      parseDelegations analysis = Inr (ds1 @ ds2)"
    by (simp add: parseDelegations_def)
qed

theorem parseDelegations_plan_and_orphans_witness:
  "str_split CHR 0x0A
     ''- agent: coder\<newline>- task: write X\<newline>- agent: ghost\<newline>some note\<newline>- agent: reviewer\<newline>- task: review X'' =
     [''- agent: coder'', ''- task: write X''] @ ''- agent: ghost'' # [''some note''] @
     [''- agent: reviewer'', ''- task: review X''] \<and>
   isAgentLine ''- agent: ghost'' \<and>
   \<not> isAgentLine ''some note'' \<and> \<not> isTaskLine ''some note'' \<and>
   isAgentLine (hd [''- agent: reviewer'', ''- task: review X'']) \<and>
   parseDelegations
     ''- agent: coder\<newline>- task: write X\<newline>- agent: ghost\<newline>some note\<newline>- agent: reviewer\<newline>- task: review X'' =
     Inr [\<lparr>agent = ''coder'', task = ''write X''\<rparr>, \<lparr>agent = ''reviewer'', task = ''review X''\<rparr>]"
proof -
  let ?text = "''- agent: coder\<newline>- task: write X\<newline>- agent: ghost\<newline>some note\<newline>- agent: reviewer\<newline>- task: review X''"
  let ?pre = "[''- agent: coder'', ''- task: write X'']"
  let ?rest = "[''- agent: reviewer'', ''- task: review X'']"
  have h1: "str_split CHR 0x0A ?text = ?pre @ ''- agent: ghost'' # [''some note''] @ ?rest"
    by simp
  have h2: "isAgentLine ''- agent: ghost''"
    by (simp add: isAgentLine_def startsWith_def trim_def isSpace_def)
  have h3: "\<forall>l\<in>set [''some note'']. \<not> isAgentLine l \<and> \<not> isTaskLine l"
    by (simp add: isAgentLine_def isTaskLine_def startsWith_def trim_def isSpace_def)
  have h4: "?rest = [] \<or> isAgentLine (hd ?rest)"
    by (simp add: isAgentLine_def startsWith_def trim_def isSpace_def)
  have p1: "parseLineList ?pre = Inr [\<lparr>agent = ''coder'', task = ''write X''\<rparr>]"
    by (simp add: parseLineList_def parseLine_def startsWith_def trim_def
        isSpace_def splitField_def pushIfComplete_def truthy_def)
  have p2: "parseLineList ?rest = Inr [\<lparr>agent = ''reviewer'', task = ''review X''\<rparr>]"
    by (simp add: parseLineList_def parseLine_def startsWith_def trim_def
        isSpace_def splitField_def pushIfComplete_def truthy_def)
  from parseDelegations_plan_and_orphans h1 h2 h3 h4
  obtain ds1 ds2 where "parseLineList ?pre = Inr ds1" "parseLineList ?rest = Inr ds2"
    "parseDelegations ?text = Inr (ds1 @ ds2)" by blast
  with p1 p2 have "parseDelegations ?text =
     Inr [\<lparr>agent = ''coder'', task = ''write X''\<rparr>, \<lparr>agent = ''reviewer'', task = ''review X''\<rparr>]"
    by simp
  with h1 h2 h3 h4 show ?thesis by simp
qed

text \<open>
  C3, as the code has it. The task text \<open>review this function for security issues\<close>
  contains \<open>function\<close>, one of the code keywords, besides \<open>review\<close> and \<open>security\<close>: the
  fallback gives the delegation to \<open>coder\<close> followed by the one to \<open>reviewer\<close>, both with
  the original task text, and that is what \<open>analyzeAndDelegate\<close> returns whenever nothing
  is parsed from the planning response.
\<close>

theorem simpleDelegate_review_security:
  "simpleDelegate ''review this function for security issues'' =
     [\<lparr>agent = ''coder'', task = ''review this function for security issues''\<rparr>,
      \<lparr>agent = ''reviewer'', task = ''review this function for security issues''\<rparr>] \<and>
   (parseDelegations (fst (fst (execute r ''review this function for security issues'' None w)))
      = Inr [] \<longrightarrow>
    (\<exists>r' w'. analyzeAndDelegate r ''review this function for security issues'' w =
       Inr ([\<lparr>agent = ''coder'', task = ''review this function for security issues''\<rparr>,
             \<lparr>agent = ''reviewer'', task = ''review this function for security issues''\<rparr>],
            r', w')))"
proof -
  let ?t = "''review this function for security issues''"
  have sd: "simpleDelegate ?t = [\<lparr>agent = ''coder'', task = ?t\<rparr>, \<lparr>agent = ''reviewer'', task = ?t\<rparr>]"
    by (simp add: simpleDelegate_def someIncluded_def codeKeywords_def reviewKeywords_def
        researchKeywords_def toLowerCase_def toLowerChar_def startsWith_def Let_def)
  obtain analysis r' w' where ex: "execute r ?t None w = ((analysis, r'), w')"
    by (metis surj_pair)
  have "parseDelegations analysis = Inr [] \<Longrightarrow>
      analyzeAndDelegate r ?t w = Inr (simpleDelegate ?t, r', w')"
    by (simp add: analyzeAndDelegate_def ex)
  with sd ex show ?thesis by auto
qed

theorem simpleDelegate_review_security_witness:
  "parseDelegations (fst (fst (execute (newRouterAgent (dummyClient ''router''))
      ''review this function for security issues'' None ()))) = Inr [] \<and>
   (\<exists>r' w'. analyzeAndDelegate (newRouterAgent (dummyClient ''router''))
        ''review this function for security issues'' () =
       Inr ([\<lparr>agent = ''coder'', task = ''review this function for security issues''\<rparr>,
             \<lparr>agent = ''reviewer'', task = ''review this function for security issues''\<rparr>],
            r', w'))"
proof -
  have p: "parseDelegations (fst (fst (execute (newRouterAgent (dummyClient ''router''))
      ''review this function for security issues'' None ()))) = Inr []"
    by (simp add: execute_def newRouterAgent_def newBaseAgent_def dummyClient_def outputOf_def
        Let_def parseDelegations_def parseLineList_def parseLine_def startsWith_def trim_def
        isSpace_def pushIfComplete_def)
  with simpleDelegate_review_security [of "newRouterAgent (dummyClient ''router'')" "()"]
  show ?thesis by blast
qed

text \<open>
  The claim C3 as stated, that the fallback gives the delegation to \<open>reviewer\<close> alone,
  fails.
\<close>

theorem simpleDelegate_review_security_counterexample:
  "simpleDelegate ''review this function for security issues'' \<noteq>
     [\<lparr>agent = ''reviewer'', task = ''review this function for security issues''\<rparr>]"
  by (simp add: simpleDelegate_def someIncluded_def codeKeywords_def reviewKeywords_def
      researchKeywords_def toLowerCase_def toLowerChar_def startsWith_def Let_def)

section \<open>Claims about BaseAgent\<close>

text \<open>
  C9. \<open>execute\<close> leaves \<open>conversationHistory\<close> as it was whenever the model call throws;
  and whenever a call of \<open>execute\<close> changes the history, the model call has settled with a
  result, and the change is the two entries (the task of the user, the output of the
  assistant) appended at the end.
\<close>

theorem execute_history_atomic:
  "(\<forall>g err w'. model a = Some g \<and> g (fullPrompt a tsk context) w = (Inl err, w') \<longrightarrow>
      conversationHistory (snd (fst (execute a tsk context w))) = conversationHistory a) \<and>
   (conversationHistory (snd (fst (execute a tsk context w))) \<noteq> conversationHistory a \<longrightarrow>
      (\<exists>g result w'. model a = Some g \<and> g (fullPrompt a tsk context) w = (Inr result, w') \<and>
         conversationHistory (snd (fst (execute a tsk context w))) =
           conversationHistory a @
             [[(''role'', ''user''), (''content'', tsk)],
              [(''role'', ''assistant''), (''content'', outputOf result)]]))"
proof (intro conjI allI impI)
  fix g err w'
  assume "model a = Some g \<and> g (fullPrompt a tsk context) w = (Inl err, w')"
  then show "conversationHistory (snd (fst (execute a tsk context w))) = conversationHistory a"
    by (simp add: execute_def)
next
  assume changed: "conversationHistory (snd (fst (execute a tsk context w))) \<noteq> conversationHistory a"
  show "\<exists>g result w'. model a = Some g \<and> g (fullPrompt a tsk context) w = (Inr result, w') \<and>
         conversationHistory (snd (fst (execute a tsk context w))) =
           conversationHistory a @
             [[(''role'', ''user''), (''content'', tsk)],
              [(''role'', ''assistant''), (''content'', outputOf result)]]"
  proof (cases "model a")
    case None
    with changed show ?thesis by (simp add: execute_def)
  next
    case (Some g)
    obtain res w' where call: "g (fullPrompt a tsk context) w = (res, w')"
      by (metis surj_pair)
    show ?thesis
    proof (cases res)
      case (Inl err)
      with changed Some call show ?thesis by (simp add: execute_def)
    next
      case (Inr result)
      with Some call show ?thesis by (simp add: execute_def Let_def)
    qed
  qed
qed

theorem execute_history_atomic_witness:
  "model ((newCoderAgent (failingClient ''Error: quota exceeded''))
            \<lparr>conversationHistory := [[(''role'', ''user''), (''content'', ''earlier'')]]\<rparr>) =
     Some (failingClient ''Error: quota exceeded'') \<and>
   failingClient ''Error: quota exceeded''
     (fullPrompt ((newCoderAgent (failingClient ''Error: quota exceeded''))
            \<lparr>conversationHistory := [[(''role'', ''user''), (''content'', ''earlier'')]]\<rparr>)
        ''write a parser'' None) () = (Inl ''Error: quota exceeded'', ()) \<and>
   conversationHistory (snd (fst (execute
     ((newCoderAgent (failingClient ''Error: quota exceeded''))
            \<lparr>conversationHistory := [[(''role'', ''user''), (''content'', ''earlier'')]]\<rparr>)
     ''write a parser'' None ()))) = [[(''role'', ''user''), (''content'', ''earlier'')]] \<and>
   conversationHistory (snd (fst (execute (newCoderAgent (dummyClient ''coder''))
     ''write a parser'' None ()))) \<noteq>
     conversationHistory (newCoderAgent (dummyClient ''coder'') :: unit base_agent) \<and>
   conversationHistory (snd (fst (execute (newCoderAgent (dummyClient ''coder''))
     ''write a parser'' None ()))) =
     [[(''role'', ''user''), (''content'', ''write a parser'')],
      [(''role'', ''assistant''), (''content'', ''[coder] Task completed'')]]"
proof -
  let ?a = "(newCoderAgent (failingClient ''Error: quota exceeded''))
            \<lparr>conversationHistory := [[(''role'', ''user''), (''content'', ''earlier'')]]\<rparr>"
  let ?b = "newCoderAgent (dummyClient ''coder'') :: unit base_agent"
  have m: "model ?a = Some (failingClient ''Error: quota exceeded'')"
    by (simp add: newCoderAgent_def newBaseAgent_def)
  have c: "failingClient ''Error: quota exceeded'' (fullPrompt ?a ''write a parser'' None) ()
      = (Inl ''Error: quota exceeded'', ())"
    by (simp add: failingClient_def)
  have h: "conversationHistory ?a = [[(''role'', ''user''), (''content'', ''earlier'')]]"
    by simp
  have first: "conversationHistory (snd (fst (execute ?a ''write a parser'' None ()))) =
      [[(''role'', ''user''), (''content'', ''earlier'')]]"
    using execute_history_atomic [of ?a "''write a parser''" None "()"] m c h by metis
  have changed: "conversationHistory (snd (fst (execute ?b ''write a parser'' None ()))) \<noteq>
      conversationHistory ?b"
    by (simp add: execute_def newCoderAgent_def newBaseAgent_def dummyClient_def Let_def)
  have bm: "model ?b = Some (dummyClient ''coder'')"
    by (simp add: newCoderAgent_def newBaseAgent_def)
  from execute_history_atomic [of ?b "''write a parser''" None "()"] changed
  obtain g result w' where "model ?b = Some g"
    "g (fullPrompt ?b ''write a parser'' None) () = (Inr result, w')"
    "conversationHistory (snd (fst (execute ?b ''write a parser'' None ()))) =
       conversationHistory ?b @
         [[(''role'', ''user''), (''content'', ''write a parser'')],
          [(''role'', ''assistant''), (''content'', outputOf result)]]"
    by blast
  with bm have second: "conversationHistory (snd (fst (execute ?b ''write a parser'' None ()))) =
     [[(''role'', ''user''), (''content'', ''write a parser'')],
      [(''role'', ''assistant''), (''content'', ''[coder] Task completed'')]]"
    by (auto simp add: dummyClient_def outputOf_def trim_def isSpace_def newCoderAgent_def
        newBaseAgent_def)
  from m c first changed second show ?thesis by blast
qed

section \<open>Claims about the orchestrator\<close>

text \<open>
  For an agent name that is neither a worker nor a key of \<open>Object.prototype\<close>, what C5
  says holds: the result recorded at the delegation's position is
  \<open>Error: Unknown agent '<id>'\<close>, and the run goes on with the remaining delegations
  and the synthesis.
\<close>

lemma unknown_agent_is_recorded:
  assumes plan: "analyzeAndDelegate (router sw) userTask w = Inr (pre @ d # post, r1, wA)"
    and reached: "runDelegations now ([], sw\<lparr>router := r1\<rparr>, wA) pre = Inr (rs1, sw1, w1)"
    and unknown: "getWorker (workers sw1) (agent d) = Undefined"
  shows "\<exists>sw2 w2.
           runDelegation now (rs1, sw1, w1) d =
             Inr (rs1 @ [''Error: Unknown agent '' @ quoted (agent d)], sw2, w2) \<and>
           swarm_execute now sw userTask w =
             synthesize (pre @ d # post)
               (runDelegations now
                  (rs1 @ [''Error: Unknown agent '' @ quoted (agent d)], sw2, w2) post) \<and>
           (\<forall>results sw3 w3.
              runDelegations now
                (rs1 @ [''Error: Unknown agent '' @ quoted (agent d)], sw2, w2) post
                = Inr (results, sw3, w3) \<longrightarrow>
              length pre < length results \<and>
              results ! length pre = ''Error: Unknown agent '' @ quoted (agent d))"
proof -
  let ?E = "''Error: Unknown agent '' @ quoted (agent d)"
  obtain bus1 w2 where sent: "send now (messageBus sw1) ''router'' (agent d) ''task'' (task d) w1 = (bus1, w2)"
    by (metis surj_pair)
  have step: "runDelegation now (rs1, sw1, w1) d = Inr (rs1 @ [?E], sw1\<lparr>messageBus := bus1\<rparr>, w2)"
    using unknown sent by (simp add: runDelegation_def Let_def)
  have cont: "swarm_execute now sw userTask w =
      synthesize (pre @ d # post) (runDelegations now (rs1 @ [?E], sw1\<lparr>messageBus := bus1\<rparr>, w2) post)"
    using plan reached step by (rule swarm_execute_continues)
  have pos: "\<forall>results sw3 w3.
      runDelegations now (rs1 @ [?E], sw1\<lparr>messageBus := bus1\<rparr>, w2) post = Inr (results, sw3, w3) \<longrightarrow>
      length pre < length results \<and> results ! length pre = ?E"
    using result_position [OF reached] by blast
  from step cont pos show ?thesis by blast
qed

text \<open>
  C5 at the agent name \<open>constructor\<close>, which is not a worker: the planning response
  \<open>- agent: constructor\<close>, \<open>- task: x\<close> gives one delegation; \<open>this.workers['constructor']\<close>
  is the inherited \<open>Object\<close> function, the guard for an unknown agent is passed over,
  and the call of its missing \<open>execute\<close> throws. No result is recorded and the synthesis
  is never reached.
\<close>

theorem inherited_property_aborts:
  "swarm_execute (frozenClock ''2026-01-01T00:00:00.000Z'')
     (newSwarmOrchestrator (scriptedClient ''- agent: constructor\<newline>- task: x'')
        (dummyClient ''coder'') (dummyClient ''reviewer'') (dummyClient ''researcher''))
     ''do something'' () =
   Inl (TypeError ''worker.execute is not a function'')"
  by (simp add: swarm_execute_def analyzeAndDelegate_def execute_def newSwarmOrchestrator_def
      newRouterAgent_def newBaseAgent_def scriptedClient_def outputOf_def Let_def
      parseDelegations_def parseLineList_def parseLine_def startsWith_def trim_def isSpace_def
      splitField_def pushIfComplete_def truthy_def runDelegation_def send_def frozenClock_def
      getWorker_def objectPrototypeKeys_def synthesize_def)

text \<open>
  C6, as the code has it. When the single model call of a registered worker throws a
  value that renders as \<open>cause\<close>, the step of that delegation returns normally, the result
  it records is \<open>[<role>] Error executing task: <cause>\<close> (the role of the worker in
  brackets comes first), the whole run is the remaining delegations run from the state the
  step left, followed by the synthesis, and in the results the synthesis receives the text
  stands at the position of the delegation.
\<close>

theorem worker_failure_is_recorded:
  assumes plan: "analyzeAndDelegate (router sw) userTask w = Inr (pre @ d # post, r1, wA)"
    and reached: "runDelegations now ([], sw\<lparr>router := r1\<rparr>, wA) pre = Inr (rs1, sw1, w1)"
    and registered: "getWorker (workers sw1) (agent d) = Own worker"
    and hasModel: "model worker = Some generateContent"
    and sent: "send now (messageBus sw1) ''router'' (agent d) ''task'' (task d) w1 = (bus1, w2)"
    and throws: "generateContent (fullPrompt worker (task d) (Some (getContextFor bus1 (agent d)))) w2
                   = (Inl cause, w3)"
  shows "\<exists>sw2 w4.
           runDelegation now (rs1, sw1, w1) d =
             Inr (rs1 @ [''['' @ role worker @ ''] Error executing task: '' @ cause], sw2, w4) \<and>
           swarm_execute now sw userTask w =
             synthesize (pre @ d # post)
               (runDelegations now
                  (rs1 @ [''['' @ role worker @ ''] Error executing task: '' @ cause], sw2, w4) post) \<and>
           (\<forall>results sw3 w5.
              runDelegations now
                (rs1 @ [''['' @ role worker @ ''] Error executing task: '' @ cause], sw2, w4) post
                = Inr (results, sw3, w5) \<longrightarrow>
              length pre < length results \<and>
              results ! length pre = ''['' @ role worker @ ''] Error executing task: '' @ cause)"
proof -
  let ?E = "''['' @ role worker @ ''] Error executing task: '' @ cause"
  have ex: "execute worker (task d) (Some (getContextFor bus1 (agent d))) w2 = ((?E, worker), w3)"
    using hasModel throws by (rule execute_throwing)
  obtain bus2 w4 where reply: "send now bus1 (agent d) ''router'' ''result'' ?E w3 = (bus2, w4)"
    by (metis surj_pair)
  let ?sw2 = "sw1\<lparr>messageBus := bus2, workers := (workers sw1)(agent d \<mapsto> worker)\<rparr>"
  have step: "runDelegation now (rs1, sw1, w1) d = Inr (rs1 @ [?E], ?sw2, w4)"
    using registered sent ex reply by (simp add: runDelegation_def Let_def)
  have cont: "swarm_execute now sw userTask w =
      synthesize (pre @ d # post) (runDelegations now (rs1 @ [?E], ?sw2, w4) post)"
    using plan reached step by (rule swarm_execute_continues)
  have pos: "\<forall>results sw3 w5.
      runDelegations now (rs1 @ [?E], ?sw2, w4) post = Inr (results, sw3, w5) \<longrightarrow>
      length pre < length results \<and> results ! length pre = ?E"
    using result_position [OF reached] by blast
  from step cont pos show ?thesis by blast
qed

theorem worker_failure_is_recorded_witness:
  "(\<exists>r1. analyzeAndDelegate (router demoSwarm) ''build it'' [demoPlan, ''All done.''] =
      Inr ([\<lparr>agent = ''coder'', task = ''write X''\<rparr>,
            \<lparr>agent = ''reviewer'', task = ''review X''\<rparr>], r1, [''All done.''])) \<and>
   getWorker (workers demoSwarm) ''coder'' = Own (newCoderAgent (failingClient ''Error: boom'')) \<and>
   (\<exists>sw2 w4. runDelegation (frozenClock ''2026-01-01T00:00:00.000Z'')
        ([], demoSwarm\<lparr>router :=
               snd (fst (execute (router demoSwarm) ''build it'' None [demoPlan, ''All done.'']))\<rparr>,
         [''All done.''])
        \<lparr>agent = ''coder'', task = ''write X''\<rparr> =
      Inr ([''[coder] Error executing task: Error: boom''], sw2, w4)) \<and>
   (\<exists>sw3 w5. swarm_execute (frozenClock ''2026-01-01T00:00:00.000Z'') demoSwarm ''build it''
        [demoPlan, ''All done.''] = Inr (''All done.'', sw3, w5))"
proof -
  let ?now = "frozenClock ''2026-01-01T00:00:00.000Z'' :: string list clock"
  let ?w = "[demoPlan, ''All done.'']"
  let ?r1 = "snd (fst (execute (router demoSwarm) ''build it'' None ?w))"
  let ?d = "\<lparr>agent = ''coder'', task = ''write X''\<rparr>"
  let ?post = "[\<lparr>agent = ''reviewer'', task = ''review X''\<rparr>]"
  let ?coder = "newCoderAgent (failingClient ''Error: boom'') :: string list base_agent"
  let ?sw1 = "demoSwarm\<lparr>router := ?r1\<rparr>"
  have plan: "analyzeAndDelegate (router demoSwarm) ''build it'' ?w =
      Inr ([] @ ?d # ?post, ?r1, [''All done.''])"
    using demo_plan by simp
  have reached: "runDelegations ?now ([], ?sw1, [''All done.'']) [] = Inr ([], ?sw1, [''All done.''])"
    by simp
  have registered: "getWorker (workers ?sw1) (agent ?d) = Own ?coder"
    by (simp add: getWorker_def demoSwarm_def newSwarmOrchestrator_def)
  have hasModel: "model ?coder = Some (failingClient ''Error: boom'')"
    by (simp add: newCoderAgent_def newBaseAgent_def)
  obtain bus1 where sent:
    "send ?now (messageBus ?sw1) ''router'' (agent ?d) ''task'' (task ?d) [''All done.'']
       = (bus1, [''All done.''])"
    by (simp add: send_def frozenClock_def)
  have throws: "failingClient ''Error: boom''
      (fullPrompt ?coder (task ?d) (Some (getContextFor bus1 (agent ?d)))) [''All done.'']
        = (Inl ''Error: boom'', [''All done.''])"
    by (simp add: failingClient_def)
  from worker_failure_is_recorded [OF plan reached registered hasModel sent throws]
  obtain sw2 w4 where
    "runDelegation ?now ([], ?sw1, [''All done.'']) ?d =
       Inr ([] @ [''['' @ role ?coder @ ''] Error executing task: '' @ ''Error: boom''], sw2, w4)"
    by blast
  then have step: "\<exists>sw2 w4. runDelegation ?now ([], ?sw1, [''All done.'']) ?d =
       Inr ([''[coder] Error executing task: Error: boom''], sw2, w4)"
    by (simp add: newCoderAgent_def newBaseAgent_def)
  have reg0: "getWorker (workers demoSwarm) ''coder'' = Own ?coder"
    by (simp add: getWorker_def demoSwarm_def newSwarmOrchestrator_def)
  have run: "\<exists>sw3 w5. swarm_execute ?now demoSwarm ''build it'' ?w = Inr (''All done.'', sw3, w5)"
    using demo_run by blast
  have p: "\<exists>r1. analyzeAndDelegate (router demoSwarm) ''build it'' ?w =
      Inr ([?d, \<lparr>agent = ''reviewer'', task = ''review X''\<rparr>], r1, [''All done.''])"
    using demo_plan by blast
  from p reg0 step run show ?thesis by blast
qed

text \<open>
  The claim C6 as stated, that the recorded text is \<open>Error executing task: <cause>\<close>,
  fails: the text starts with the role of the worker in brackets. Here the coder of the
  example swarm throws \<open>Error: boom\<close>.
\<close>

theorem worker_failure_text_counterexample:
  "fst (projr (runDelegation (frozenClock ''2026-01-01T00:00:00.000Z'')
                 ([], demoSwarm, [''All done.''])
                 \<lparr>agent = ''coder'', task = ''write X''\<rparr>)) \<noteq>
     [''Error executing task: Error: boom'']"
  by (simp add: runDelegation_def Let_def send_def frozenClock_def getWorker_def demoSwarm_def
      newSwarmOrchestrator_def execute_def newCoderAgent_def newBaseAgent_def failingClient_def)

text \<open>
  C10. For a delegation whose worker is registered, the context handed to the worker's
  \<open>execute\<close> is not the messages before the delegation: it is those messages to or from the
  worker followed by the task message of the delegation itself, which \<open>send\<close> has put on
  the bus before \<open>getContextFor\<close> is asked; so the task message is its last element.
\<close>

theorem worker_context_includes_current_task:
  assumes registered: "getWorker (workers sw) (agent d) = Own worker"
  shows "\<exists>ts w1 taskMsg context.
           now w = (ts, w1) \<and>
           taskMsg = \<lparr>msg_from = ''router'', msg_to = agent d, msg_type = ''task'',
                      msg_content = task d, msg_timestamp = ts\<rparr> \<and>
           context = getContextFor (messageBus sw) (agent d) @ [taskMsg] \<and>
           last context = taskMsg \<and>
           context \<noteq> getContextFor (messageBus sw) (agent d) \<and>
           runDelegation now (results, sw, w) d =
             (case execute worker (task d) (Some context) w1 of
                ((result, worker'), w2) \<Rightarrow>
                  (case send now ((messageBus sw)\<lparr>messages := messages (messageBus sw) @ [taskMsg]\<rparr>)
                          (agent d) ''router'' ''result'' result w2 of
                     (bus2, w3) \<Rightarrow>
                       Inr (results @ [result],
                            sw\<lparr>messageBus := bus2,
                               workers := (workers sw)(agent d \<mapsto> worker')\<rparr>, w3)))"
proof -
  obtain ts w1 where clock: "now w = (ts, w1)" by (metis surj_pair)
  let ?m = "\<lparr>msg_from = ''router'', msg_to = agent d, msg_type = ''task'',
             msg_content = task d, msg_timestamp = ts\<rparr>"
  let ?bus1 = "(messageBus sw)\<lparr>messages := messages (messageBus sw) @ [?m]\<rparr>"
  let ?given = "getContextFor (messageBus sw) (agent d) @ [?m]"
  have sent: "send now (messageBus sw) ''router'' (agent d) ''task'' (task d) w = (?bus1, w1)"
    by (simp add: send_def clock)
  have filtered: "getContextFor ?bus1 (agent d) = ?given"
    by (simp add: getContextFor_def)
  have run: "runDelegation now (results, sw, w) d =
             (case execute worker (task d) (Some ?given) w1 of
                ((result, worker'), w2) \<Rightarrow>
                  (case send now ?bus1 (agent d) ''router'' ''result'' result w2 of
                     (bus2, w3) \<Rightarrow>
                       Inr (results @ [result],
                            sw\<lparr>messageBus := bus2,
                               workers := (workers sw)(agent d \<mapsto> worker')\<rparr>, w3)))"
    using registered sent filtered by (simp add: runDelegation_def Let_def split: prod.splits)
  have "last ?given = ?m" by simp
  moreover have "?given \<noteq> getContextFor (messageBus sw) (agent d)" by simp
  ultimately show ?thesis using clock run by blast
qed

theorem worker_context_includes_current_task_witness:
  "getWorker (workers echoSwarm) ''coder'' = Own (newCoderAgent echoClient) \<and>
   (\<exists>sw' w'. runDelegation (frozenClock ''2026-01-01T00:00:00.123Z'') ([], echoSwarm, ())
        \<lparr>agent = ''coder'', task = ''write X''\<rparr> =
      Inr ([coderSystemPrompt @
            ''\<newline>\<newline>Task: write X\<newline>\<newline>Context from other agents:\<newline>[router]: write X\<newline>''],
           sw', w'))"
proof -
  let ?d = "\<lparr>agent = ''coder'', task = ''write X''\<rparr>"
  let ?now = "frozenClock ''2026-01-01T00:00:00.123Z'' :: unit clock"
  have registered: "getWorker (workers echoSwarm) (agent ?d) = Own (newCoderAgent echoClient)"
    by (simp add: getWorker_def echoSwarm_def newSwarmOrchestrator_def)
  from worker_context_includes_current_task [OF registered, of ?now "()" "[]"]
  obtain ts w1 taskMsg ctx where
    c: "?now () = (ts, w1)" and
    m: "taskMsg = \<lparr>msg_from = ''router'', msg_to = agent ?d, msg_type = ''task'',
                      msg_content = task ?d, msg_timestamp = ts\<rparr>" and
    cx: "ctx = getContextFor (messageBus echoSwarm) (agent ?d) @ [taskMsg]" and
    run: "runDelegation ?now ([], echoSwarm, ()) ?d =
             (case execute (newCoderAgent echoClient) (task ?d) (Some ctx) w1 of
                ((result, worker'), w2) \<Rightarrow>
                  (case send ?now ((messageBus echoSwarm)\<lparr>messages := messages (messageBus echoSwarm) @ [taskMsg]\<rparr>)
                          (agent ?d) ''router'' ''result'' result w2 of
                     (bus2, w3) \<Rightarrow>
                       Inr ([] @ [result],
                            echoSwarm\<lparr>messageBus := bus2,
                               workers := (workers echoSwarm)(agent ?d \<mapsto> worker')\<rparr>, w3)))"
    by blast
  have "ctx = [\<lparr>msg_from = ''router'', msg_to = ''coder'', msg_type = ''task'',
                      msg_content = ''write X'', msg_timestamp = ''2026-01-01T00:00:00.123Z''\<rparr>]"
    using c m cx by (simp add: frozenClock_def getContextFor_def echoSwarm_def newSwarmOrchestrator_def)
  with run have "\<exists>sw' w'. runDelegation ?now ([], echoSwarm, ()) ?d =
      Inr ([coderSystemPrompt @
            ''\<newline>\<newline>Task: write X\<newline>\<newline>Context from other agents:\<newline>[router]: write X\<newline>''],
           sw', w')"
    by (simp add: execute_def newCoderAgent_def newBaseAgent_def echoClient_def outputOf_def
        Let_def fullPrompt_def contextStr_def orElse_def send_def frozenClock_def)
  with registered show ?thesis by simp
qed

section \<open>Claims about the message bus\<close>

text \<open>
  C8, as the code has it. \<open>send\<close> always succeeds and appends one message, stamped with
  the reading of the wall clock at the call. Of two messages sent one after the other the
  later one has the strictly greater timestamp exactly when the clock's second reading is
  strictly greater than its first.
\<close>

theorem send_stamps_the_clock_reading:
  "\<exists>t1 wA t2 wB bus1 bus2.
      now w = (t1, wA) \<and> now wA = (t2, wB) \<and>
      send now bus from1 to1 type1 content1 w = (bus1, wA) \<and>
      send now bus1 from2 to2 type2 content2 wA = (bus2, wB) \<and>
      getAllMessages bus2 =
        getAllMessages bus @
          [\<lparr>msg_from = from1, msg_to = to1, msg_type = type1, msg_content = content1,
            msg_timestamp = t1\<rparr>,
           \<lparr>msg_from = from2, msg_to = to2, msg_type = type2, msg_content = content2,
            msg_timestamp = t2\<rparr>] \<and>
      (msg_timestamp (last (getAllMessages bus1)) < msg_timestamp (last (getAllMessages bus2))
         \<longleftrightarrow> t1 < t2)"
proof -
  obtain t1 wA where r1: "now w = (t1, wA)" by (metis surj_pair)
  obtain t2 wB where r2: "now wA = (t2, wB)" by (metis surj_pair)
  show ?thesis
    by (simp add: send_def getAllMessages_def r1 r2)
qed

text \<open>
  The claim C8 as stated fails when both calls read the clock within the same
  millisecond: the two timestamps are equal.
\<close>

theorem send_same_millisecond_counterexample:
  "\<not> msg_timestamp
        (getAllMessages
           (fst (send (frozenClock ''2026-01-01T00:00:00.000Z'')
                   (fst (send (frozenClock ''2026-01-01T00:00:00.000Z'') \<lparr>messages = []\<rparr>
                           ''router'' ''ghost'' ''task'' ''first'' ()))
                   ''router'' ''phantom'' ''task'' ''second'' ())) ! 0)
      < msg_timestamp
        (getAllMessages
           (fst (send (frozenClock ''2026-01-01T00:00:00.000Z'')
                   (fst (send (frozenClock ''2026-01-01T00:00:00.000Z'') \<lparr>messages = []\<rparr>
                           ''router'' ''ghost'' ''task'' ''first'' ()))
                   ''router'' ''phantom'' ''task'' ''second'' ())) ! 1)"
  by (simp add: send_def getAllMessages_def frozenClock_def)

section \<open>Claims about the tool manager\<close>

text \<open>
  C4, as the code has it. Take two tools of connected servers of the manager whose pairs
  of provider name and original name differ. If the two provider names are equal, or
  neither of them contains an underscore, then the prefixed names differ, both are keys
  of the registry that \<open>getAllToolsAsCallables\<close> builds, and no key stands twice in it.
\<close>

theorem callable_names_distinct:
  assumes "(n1, c1) \<in> set (servers mgr)" and "connected c1" and "t1 \<in> set (tools c1)"
    and "(n2, c2) \<in> set (servers mgr)" and "connected c2" and "t2 \<in> set (tools c2)"
    and differ: "(serverName t1, originalName t1) \<noteq> (serverName t2, originalName t2)"
    and names: "serverName t1 = serverName t2 \<or>
                (CHR ''_'' \<notin> set (serverName t1) \<and> CHR ''_'' \<notin> set (serverName t2))"
  shows "getPrefixedName t1 (toolPrefix mgr) \<noteq> getPrefixedName t2 (toolPrefix mgr) \<and>
         getPrefixedName t1 (toolPrefix mgr) \<in> fst ` set (getAllToolsAsCallables mgr) \<and>
         getPrefixedName t2 (toolPrefix mgr) \<in> fst ` set (getAllToolsAsCallables mgr) \<and>
         distinct (map fst (getAllToolsAsCallables mgr))"
  using prefixed_names_differ [OF differ names] callable_key [OF assms(1-3)]
    callable_key [OF assms(4-6)] callables_distinct by blast

theorem callable_names_distinct_witness:
  "(''files'', exampleConnection ''files'' [''read'', ''write'']) \<in>
     set (servers (exampleManager [(''files'', [''read'', ''write'']), (''web'', [''read''])]
        :: unit mcp_client_manager)) \<and>
   (''web'', exampleConnection ''web'' [''read'']) \<in>
     set (servers (exampleManager [(''files'', [''read'', ''write'']), (''web'', [''read''])]
        :: unit mcp_client_manager)) \<and>
   connected (exampleConnection ''files'' [''read'', ''write''] :: unit mcp_connection) \<and>
   connected (exampleConnection ''web'' [''read''] :: unit mcp_connection) \<and>
   map (\<lambda>t. (serverName t, originalName t))
     (tools (exampleConnection ''files'' [''read'', ''write''] :: unit mcp_connection)) =
     [(''files'', ''read''), (''files'', ''write'')] \<and>
   map (\<lambda>t. (serverName t, originalName t))
     (tools (exampleConnection ''web'' [''read''] :: unit mcp_connection)) =
     [(''web'', ''read'')] \<and>
   CHR ''_'' \<notin> set ''files'' \<and> CHR ''_'' \<notin> set ''web'' \<and>
   ''mcp_files_read'' \<noteq> ''mcp_web_read'' \<and>
   map fst (getAllToolsAsCallables
     (exampleManager [(''files'', [''read'', ''write'']), (''web'', [''read''])]
        :: unit mcp_client_manager)) =
     [''mcp_files_read'', ''mcp_files_write'', ''mcp_web_read'']"
proof -
  let ?mgr = "exampleManager [(''files'', [''read'', ''write'']), (''web'', [''read''])]
        :: unit mcp_client_manager"
  let ?c1 = "exampleConnection ''files'' [''read'', ''write''] :: unit mcp_connection"
  let ?c2 = "exampleConnection ''web'' [''read''] :: unit mcp_connection"
  let ?t1 = "\<lparr>tool_name = ''read'', tool_description = ''No description provided'',
              serverName = ''files'', inputSchema = ''{}'', originalName = ''read''\<rparr>"
  let ?t2 = "\<lparr>tool_name = ''read'', tool_description = ''No description provided'',
              serverName = ''web'', inputSchema = ''{}'', originalName = ''read''\<rparr>"
  have s1: "(''files'', ?c1) \<in> set (servers ?mgr)" by (simp add: exampleManager_def)
  have s2: "(''web'', ?c2) \<in> set (servers ?mgr)" by (simp add: exampleManager_def)
  have k1: "connected ?c1" by (simp add: exampleConnection_def discoverTools_def)
  have k2: "connected ?c2" by (simp add: exampleConnection_def discoverTools_def)
  have m1: "?t1 \<in> set (tools ?c1)" by (simp add: exampleConnection_def discoverTools_def)
  have m2: "?t2 \<in> set (tools ?c2)" by (simp add: exampleConnection_def discoverTools_def)
  have l1: "map (\<lambda>t. (serverName t, originalName t)) (tools ?c1) =
     [(''files'', ''read''), (''files'', ''write'')]"
    by (simp add: exampleConnection_def discoverTools_def)
  have l2: "map (\<lambda>t. (serverName t, originalName t)) (tools ?c2) = [(''web'', ''read'')]"
    by (simp add: exampleConnection_def discoverTools_def)
  have differ: "(serverName ?t1, originalName ?t1) \<noteq> (serverName ?t2, originalName ?t2)" by simp
  have free: "CHR ''_'' \<notin> set ''files'' \<and> CHR ''_'' \<notin> set ''web''" by simp
  then have names: "serverName ?t1 = serverName ?t2 \<or>
                (CHR ''_'' \<notin> set (serverName ?t1) \<and> CHR ''_'' \<notin> set (serverName ?t2))" by simp
  from callable_names_distinct [OF s1 k1 m1 s2 k2 m2 differ names]
  have "getPrefixedName ?t1 (toolPrefix ?mgr) \<noteq> getPrefixedName ?t2 (toolPrefix ?mgr)" by blast
  then have ne: "''mcp_files_read'' \<noteq> ''mcp_web_read''"
    by (simp add: getPrefixedName_def exampleManager_def)
  have keys: "map fst (getAllToolsAsCallables ?mgr) =
     [''mcp_files_read'', ''mcp_files_write'', ''mcp_web_read'']"
    by (simp add: exampleConnection_def discoverTools_def getPrefixedName_def exampleManager_def
      getAllToolsAsCallables_def addCallables_def)
  from s1 s2 k1 k2 l1 l2 free ne keys show ?thesis by blast
qed

text \<open>
  The claim C4 as stated fails for provider names with an underscore: the tool \<open>c\<close> of
  the provider \<open>a_b\<close> and the tool \<open>b_c\<close> of the provider \<open>a\<close> are both named
  \<open>mcp_a_b_c\<close>, and the registry of the two connected providers has that one key only.
\<close>

theorem callable_names_collide_counterexample:
  "(serverName (hd (tools (exampleConnection ''a_b'' [''c''] :: unit mcp_connection))),
    originalName (hd (tools (exampleConnection ''a_b'' [''c''] :: unit mcp_connection)))) \<noteq>
   (serverName (hd (tools (exampleConnection ''a'' [''b_c''] :: unit mcp_connection))),
    originalName (hd (tools (exampleConnection ''a'' [''b_c''] :: unit mcp_connection)))) \<and>
   getPrefixedName (hd (tools (exampleConnection ''a_b'' [''c''] :: unit mcp_connection))) ''mcp_'' =
   getPrefixedName (hd (tools (exampleConnection ''a'' [''b_c''] :: unit mcp_connection))) ''mcp_'' \<and>
   map fst (getAllToolsAsCallables
     (exampleManager [(''a_b'', [''c'']), (''a'', [''b_c''])] :: unit mcp_client_manager)) =
     [''mcp_a_b_c'']"
  by (simp add: exampleConnection_def discoverTools_def getPrefixedName_def exampleManager_def
      getAllToolsAsCallables_def addCallables_def)

section \<open>Claims about the agent\<close>

text \<open>
  C7. For every name that \<open>availableTools\<close> does not hold and every argument value, the
  dispatch returns the text \<open>Requested tool '<name>' is not registered.\<close> and leaves the
  world as it was; and no exception leaves \<open>act\<close>, the caller of the dispatch, but the
  one that the memory write before the \<open>try\<close> block may throw.
\<close>

theorem unregistered_tool_is_reported:
  assumes unregistered: "map_of (availableTools ag) toolName = None"
  shows "invokeTool (availableTools ag) toolName toolArgs w =
           (''Requested tool '' @ quoted toolName @ '' is not registered.'', w) \<and>
         (\<forall>writeFileSync jsonPattern tsk w0 e.
            fst (act writeFileSync jsonPattern ag tsk w0) = Inl e \<longrightarrow>
            fst (addEntry writeFileSync (memory ag) ''user'' tsk w0) = Some e)"
  using unregistered act_raises_only_first_write by (auto simp add: invokeTool_def)

theorem unregistered_tool_is_reported_witness:
  "map_of (availableTools (exampleAgent :: unit gemini_agent)) ''ghost_tool'' = None \<and>
   invokeTool (availableTools (exampleAgent :: unit gemini_agent)) ''ghost_tool'' ''{}'' () =
     (''Requested tool 'ghost_tool' is not registered.'', ()) \<and>
   fst (act fullDisk noJson (exampleAgent :: unit gemini_agent) ''look it up'' ()) =
     Inl ''Error: ENOSPC: no space left on device, write'' \<and>
   fst (addEntry fullDisk (memory (exampleAgent :: unit gemini_agent)) ''user'' ''look it up'' ()) =
     Some ''Error: ENOSPC: no space left on device, write''"
proof -
  let ?ag = "exampleAgent :: unit gemini_agent"
  have unregistered: "map_of (availableTools ?ag) ''ghost_tool'' = None"
    by (simp add: exampleAgent_def)
  have raised: "fst (act fullDisk noJson ?ag ''look it up'' ()) =
      Inl ''Error: ENOSPC: no space left on device, write''"
    by (simp add: act_def addEntry_def saveMemory_def fullDisk_def Let_def)
  from unregistered_tool_is_reported [OF unregistered, of "''{}''" "()"]
  have obs: "invokeTool (availableTools ?ag) ''ghost_tool'' ''{}'' () =
      (''Requested tool '' @ quoted ''ghost_tool'' @ '' is not registered.'', ())"
    and first: "fst (addEntry fullDisk (memory ?ag) ''user'' ''look it up'' ()) =
      Some ''Error: ENOSPC: no space left on device, write''"
    using raised by blast+
  from obs have "invokeTool (availableTools ?ag) ''ghost_tool'' ''{}'' () =
      (''Requested tool 'ghost_tool' is not registered.'', ())"
    by (simp add: quoted_def)
  with unregistered raised first show ?thesis by blast
qed

end
